theory Spec2Isabelle
  imports Complex_Main "HOL-Library.Sublist"
begin


section \<open>Python values\<close>

text \<open>
  A Python \<^verbatim>\<open>str\<close> is a sequence of Unicode code points; a code point is a natural
  number. ASCII literals of the source are written with \<open>ascii\<close>, the others as their
  code points.
\<close>

type_synonym pystr = "nat list"

definition ascii :: "string \<Rightarrow> pystr" where
  "ascii s = map of_char s"

text \<open>The exceptions that the modelled code raises or that reach it from outside.\<close>

datatype error =
    ValueError
  | OverflowError
  | IndexError
  | TypeError
  | AttributeError
  | JSONDecodeError
  | ValidationError
  | RemoteError

text \<open>Sequencing of steps that may raise: the first exception ends the block.\<close>

definition ebind :: "error + 'a \<Rightarrow> ('a \<Rightarrow> error + 'b) \<Rightarrow> error + 'b" where
  "ebind m f = (case m of Inl e \<Rightarrow> Inl e | Inr x \<Rightarrow> f x)"

subsection \<open>Strings\<close>

text \<open>\<^verbatim>\<open>s.find(sub, start)\<close>: the lowest index from \<open>start\<close> on where \<open>sub\<close> begins,
  or \<open>-1\<close>.\<close>

fun find_idx :: "pystr \<Rightarrow> pystr \<Rightarrow> nat \<Rightarrow> int" where
  "find_idx sub [] k = (if sub = [] then int k else - 1)"
| "find_idx sub (c # cs) k = (if prefix sub (c # cs) then int k else find_idx sub cs (Suc k))"

definition py_find :: "pystr \<Rightarrow> pystr \<Rightarrow> nat \<Rightarrow> int" where
  "py_find s sub start = (if length s < start then - 1 else find_idx sub (drop start s) start)"

text \<open>\<^verbatim>\<open>sub in s\<close>.\<close>

definition py_in :: "pystr \<Rightarrow> pystr \<Rightarrow> bool" where
  "py_in sub s = (py_find s sub 0 \<noteq> - 1)"

text \<open>\<^verbatim>\<open>s.rfind(c)\<close> for a single character: the highest index of \<open>c\<close>, or \<open>-1\<close>.\<close>

fun rfind_idx :: "nat \<Rightarrow> pystr \<Rightarrow> nat \<Rightarrow> int \<Rightarrow> int" where
  "rfind_idx c [] k best = best"
| "rfind_idx c (x # xs) k best = rfind_idx c xs (Suc k) (if x = c then int k else best)"

definition py_rfind :: "pystr \<Rightarrow> nat \<Rightarrow> int" where
  "py_rfind s c = rfind_idx c s 0 (- 1)"

text \<open>\<^verbatim>\<open>s[a:b]\<close>: a negative bound counts from the end, and both are clipped to the
  string.\<close>

definition clip :: "nat \<Rightarrow> int \<Rightarrow> nat" where
  "clip n i = (if i < 0 then nat (max 0 (int n + i)) else min n (nat i))"

definition py_slice :: "pystr \<Rightarrow> int \<Rightarrow> int \<Rightarrow> pystr" where
  "py_slice s a b = (let i = clip (length s) a; j = clip (length s) b in take (j - i) (drop i s))"

text \<open>\<^verbatim>\<open>str.isspace\<close> on one code point, and \<^verbatim>\<open>s.strip()\<close>.\<close>

definition py_isspace :: "nat \<Rightarrow> bool" where
  "py_isspace c = ((9 \<le> c \<and> c \<le> 13) \<or> (28 \<le> c \<and> c \<le> 32) \<or> c = 133 \<or> c = 160 \<or> c = 5760
     \<or> (8192 \<le> c \<and> c \<le> 8202) \<or> c = 8232 \<or> c = 8233 \<or> c = 8239 \<or> c = 8287 \<or> c = 12288)"

definition py_strip :: "pystr \<Rightarrow> pystr" where
  "py_strip s = rev (dropWhile py_isspace (rev (dropWhile py_isspace s)))"

text \<open>\<^verbatim>\<open>str(n)\<close> for an integer.\<close>

fun digits :: "nat \<Rightarrow> pystr" where
  "digits n = (if n < 10 then [48 + n] else digits (n div 10) @ [48 + n mod 10])"

declare digits.simps [simp del]

definition str_int :: "int \<Rightarrow> pystr" where
  "str_int i = (if i < 0 then 45 # digits (nat (- i)) else digits (nat i))"

subsection \<open>Floating point\<close>

text \<open>
  A Python \<^verbatim>\<open>float\<close> is an IEEE 754 binary64 number. A finite one is \<open>m * 2 ^ e\<close> for
  integers \<open>m\<close>, \<open>e\<close> with \<open>\<bar>m\<bar> \<le> 2 ^ 53\<close>; every operation computes the exact result
  and rounds it to the nearest such number, ties to the even mantissa. Infinities are
  left out: the numbers computed below stay far from \<open>2 ^ 1024\<close>.
\<close>

type_synonym binary64 = "int \<times> int"

fun ilog2 :: "nat \<Rightarrow> nat" where
  "ilog2 n = (if n < 2 then 0 else Suc (ilog2 (n div 2)))"

declare ilog2.simps [simp del]

definition rne_div :: "int \<Rightarrow> int \<Rightarrow> int" where
  "rne_div n d = (let q = n div d; r = n mod d
     in if 2 * r < d then q else if d < 2 * r then q + 1 else if even q then q else q + 1)"

definition fround :: "int \<times> int \<Rightarrow> binary64" where
  "fround x = (case x of (m, e) \<Rightarrow>
     (let bits = (if m = 0 then 0 else int (ilog2 (nat \<bar>m\<bar>)) + 1);
          k = max (bits - 53) (- 1074 - e)
      in if k \<le> 0 then (m, e) else (rne_div m (2 ^ nat k), e + k)))"

text \<open>The literal \<open>p / q\<close> in decimal notation, \<open>0 \<le> p\<close> and \<open>0 < q\<close>, correctly rounded.\<close>

definition float_of_ratio :: "int \<Rightarrow> int \<Rightarrow> binary64" where
  "float_of_ratio p q = (if p = 0 then (0, 0) else
     (let e0 = int (ilog2 (nat p)) - int (ilog2 (nat q));
          below = (if 0 \<le> e0 then p < 2 ^ nat e0 * q else p * 2 ^ nat (- e0) < q);
          s = max ((if below then e0 - 1 else e0) - 52) (- 1074)
      in if s \<le> 0 then (rne_div (p * 2 ^ nat (- s)) q, s) else (rne_div p (q * 2 ^ nat s), s)))"

definition float_of_int :: "int \<Rightarrow> binary64" where
  "float_of_int i = fround (i, 0)"

definition fadd :: "binary64 \<Rightarrow> binary64 \<Rightarrow> binary64" where
  "fadd x y = (case x of (m1, e1) \<Rightarrow> case y of (m2, e2) \<Rightarrow>
     (let e = min e1 e2 in fround (m1 * 2 ^ nat (e1 - e) + m2 * 2 ^ nat (e2 - e), e)))"

definition fmul :: "binary64 \<Rightarrow> binary64 \<Rightarrow> binary64" where
  "fmul x y = (case x of (m1, e1) \<Rightarrow> case y of (m2, e2) \<Rightarrow> fround (m1 * m2, e1 + e2))"

text \<open>The number a float stands for.\<close>

definition float_value :: "binary64 \<Rightarrow> rat" where
  "float_value x = (case x of (m, e) \<Rightarrow>
     (if 0 \<le> e then of_int m * 2 ^ nat e else of_int m / 2 ^ nat (- e)))"

subsection \<open>Dates\<close>

text \<open>
  \<^verbatim>\<open>datetime\<close> works in the proleptic Gregorian calendar, from 0001-01-01 (ordinal 1)
  to 9999-12-31 (ordinal 3652059). Only the date part of a \<^verbatim>\<open>datetime\<close> is read by the
  code modelled here.
\<close>

datatype date = Date (year: nat) (month: nat) (day: nat)

definition is_leap :: "nat \<Rightarrow> bool" where
  "is_leap y = (y mod 4 = 0 \<and> (y mod 100 \<noteq> 0 \<or> y mod 400 = 0))"

definition days_in_month :: "nat \<Rightarrow> nat \<Rightarrow> nat" where
  "days_in_month y m =
     (if m = 2 then (if is_leap y then 29 else 28)
      else if m = 4 \<or> m = 6 \<or> m = 9 \<or> m = 11 then 30 else 31)"

definition days_before_month :: "nat \<Rightarrow> nat \<Rightarrow> nat" where
  "days_before_month y m = sum_list (map (days_in_month y) [1..<m])"

definition days_before_year :: "nat \<Rightarrow> nat" where
  "days_before_year y = (let p = y - 1 in p * 365 + p div 4 - p div 100 + p div 400)"

definition ymd2ord :: "date \<Rightarrow> nat" where
  "ymd2ord d = days_before_year (year d) + days_before_month (year d) (month d) + day d"

definition MAXORDINAL :: nat where
  "MAXORDINAL = 3652059"

definition valid_date :: "date \<Rightarrow> bool" where
  "valid_date d = (1 \<le> year d \<and> year d \<le> 9999 \<and> 1 \<le> month d \<and> month d \<le> 12
     \<and> 1 \<le> day d \<and> day d \<le> days_in_month (year d) (month d))"

text \<open>The day after a date, and the date \<open>n\<close> days after one.\<close>

definition next_day :: "date \<Rightarrow> date" where
  "next_day d =
     (if day d < days_in_month (year d) (month d) then Date (year d) (month d) (day d + 1)
      else if month d < 12 then Date (year d) (month d + 1) 1
      else Date (year d + 1) 1 1)"

fun add_days :: "date \<Rightarrow> nat \<Rightarrow> date" where
  "add_days d 0 = d"
| "add_days d (Suc n) = next_day (add_days d n)"

text \<open>
  \<^verbatim>\<open>d + timedelta(days=n)\<close> for \<open>0 \<le> n\<close>: \<^verbatim>\<open>timedelta\<close> refuses more than 999999999
  days, and the sum refuses an ordinal beyond the last day of year 9999; both raise
  \<^verbatim>\<open>OverflowError\<close>.
\<close>

definition date_add :: "date \<Rightarrow> nat \<Rightarrow> error + date" where
  "date_add d n =
     (if 999999999 < n then Inl OverflowError
      else if MAXORDINAL < ymd2ord d + n then Inl OverflowError
      else Inr (add_days d n))"

text \<open>
  Two tables of the interpreter and its platform are parameters: the decimal value of
  the non-ASCII characters of category Nd, which \<^verbatim>\<open>\d\<close> and \<^verbatim>\<open>int\<close> accept beside
  \<^verbatim>\<open>0\<close> to \<^verbatim>\<open>9\<close>, and the text that \<^verbatim>\<open>%Y\<close> prints for a year below 1000.
\<close>

record platform =
  nd_digit :: "nat \<Rightarrow> nat option"
  small_year :: "nat \<Rightarrow> pystr"

definition digit_val :: "platform \<Rightarrow> nat \<Rightarrow> nat option" where
  "digit_val pf c = (if 48 \<le> c \<and> c \<le> 57 then Some (c - 48) else nd_digit pf c)"

text \<open>
  \<^verbatim>\<open>datetime.strptime(s, "%Y-%m-%d")\<close> matches \<open>s\<close> against the regular expression
  \<^verbatim>\<open>(\d\d\d\d)-(1[0-2]|0[1-9]|[1-9])-(3[0-1]|[1-2]\d|0[1-9]|[1-9]| [1-9])\<close>, refuses
  text left over after the match, and builds the date, which refuses year 0 and a day
  the month does not have. Every refusal is a \<^verbatim>\<open>ValueError\<close>. The alternatives of a
  group are tried in the order written.
\<close>

definition parse_year :: "platform \<Rightarrow> pystr \<Rightarrow> (nat \<times> pystr) option" where
  "parse_year pf s = (case s of
      a # b # c # d # rest \<Rightarrow>
        (case digit_val pf a of None \<Rightarrow> None | Some x \<Rightarrow>
         case digit_val pf b of None \<Rightarrow> None | Some y \<Rightarrow>
         case digit_val pf c of None \<Rightarrow> None | Some z \<Rightarrow>
         case digit_val pf d of None \<Rightarrow> None | Some w \<Rightarrow>
           Some (1000 * x + 100 * y + 10 * z + w, rest))
    | _ \<Rightarrow> None)"

definition one_char :: "nat \<Rightarrow> nat \<Rightarrow> pystr \<Rightarrow> (nat \<times> pystr) list" where
  "one_char lo hi s = (case s of
      c # rest \<Rightarrow> (if lo \<le> c \<and> c \<le> hi then [(c - 48, rest)] else [])
    | [] \<Rightarrow> [])"

definition two_chars :: "nat \<Rightarrow> nat \<Rightarrow> nat \<Rightarrow> pystr \<Rightarrow> (nat \<times> pystr) list" where
  "two_chars c1 lo hi s = (case s of
      a # b # rest \<Rightarrow> (if a = c1 \<and> lo \<le> b \<and> b \<le> hi then [(10 * (a - 48) + (b - 48), rest)] else [])
    | _ \<Rightarrow> [])"

definition month_alts :: "pystr \<Rightarrow> (nat \<times> pystr) list" where
  "month_alts s = two_chars 49 48 50 s @ two_chars 48 49 57 s @ one_char 49 57 s"

definition teens :: "platform \<Rightarrow> pystr \<Rightarrow> (nat \<times> pystr) list" where
  "teens pf s = (case s of
      a # b # rest \<Rightarrow>
        (if 49 \<le> a \<and> a \<le> 50
         then (case digit_val pf b of None \<Rightarrow> [] | Some v \<Rightarrow> [(10 * (a - 48) + v, rest)])
         else [])
    | _ \<Rightarrow> [])"

definition space_digit :: "pystr \<Rightarrow> (nat \<times> pystr) list" where
  "space_digit s = (case s of
      a # b # rest \<Rightarrow> (if a = 32 \<and> 49 \<le> b \<and> b \<le> 57 then [(b - 48, rest)] else [])
    | _ \<Rightarrow> [])"

definition day_alts :: "platform \<Rightarrow> pystr \<Rightarrow> (nat \<times> pystr) list" where
  "day_alts pf s =
     two_chars 51 48 49 s @ teens pf s @ two_chars 48 49 57 s @ one_char 49 57 s @ space_digit s"

definition dash :: "pystr \<Rightarrow> pystr list" where
  "dash s = (case s of c # rest \<Rightarrow> (if c = 45 then [rest] else []) | [] \<Rightarrow> [])"

definition make_date :: "nat \<Rightarrow> nat \<Rightarrow> nat \<Rightarrow> error + date" where
  "make_date y m d = (if valid_date (Date y m d) then Inr (Date y m d) else Inl ValueError)"

definition strptime_ymd :: "platform \<Rightarrow> pystr \<Rightarrow> error + date" where
  "strptime_ymd pf s = (case parse_year pf s of
      None \<Rightarrow> Inl ValueError
    | Some (y, r1) \<Rightarrow>
        (case concat (map (\<lambda>r2. concat (map (\<lambda>(m, r3). concat (map (\<lambda>r4.
                  map (\<lambda>(d, r5). (m, d, r5)) (day_alts pf r4)) (dash r3))) (month_alts r2))) (dash r1)) of
           [] \<Rightarrow> Inl ValueError
         | (m, d, r5) # _ \<Rightarrow> (if r5 = [] then make_date y m d else Inl ValueError)))"

text \<open>\<^verbatim>\<open>d.strftime("%Y-%m-%d")\<close>.\<close>

definition pad2 :: "nat \<Rightarrow> pystr" where
  "pad2 n = (if n < 10 then 48 # digits n else digits n)"

definition year_text :: "platform \<Rightarrow> nat \<Rightarrow> pystr" where
  "year_text pf y = (if 1000 \<le> y then digits y else small_year pf y)"

definition strftime_ymd :: "platform \<Rightarrow> date \<Rightarrow> pystr" where
  "strftime_ymd pf d = year_text pf (year d) @ [45] @ pad2 (month d) @ [45] @ pad2 (day d)"

section \<open>Data model\<close>

text \<open>
  Modelled from the spec: the records of \<^verbatim>\<open>app/models/schemas.py\<close>, which is not part
  of the supplied source. Fields are those of section 3 of the specification; an optional
  field that a constructor call leaves out is \<open>None\<close>. A field name used by several
  records carries the record's name.
\<close>

record Location =
  longitude :: rat
  latitude :: rat

record TripRequest =
  city :: pystr
  start_date :: pystr
  end_date :: pystr
  travel_days :: int
  transportation :: pystr
  accommodation :: pystr
  preferences :: "pystr list"
  free_text_input :: "pystr option"

record Attraction =
  attraction_name :: pystr
  attraction_address :: pystr
  attraction_location :: Location
  visit_duration :: int
  attraction_description :: pystr
  category :: pystr
  ticket_price :: "rat option"

datatype meal_type = breakfast | lunch | dinner

record Meal =
  meal_type :: meal_type
  meal_name :: pystr
  meal_description :: pystr
  meal_estimated_cost :: "rat option"

record Hotel =
  hotel_name :: pystr
  hotel_address :: pystr
  hotel_location :: Location
  price_range :: pystr
  rating :: pystr
  distance :: pystr
  hotel_type :: pystr
  hotel_estimated_cost :: "rat option"

record WeatherInfo =
  weather_date :: pystr
  dayweather :: pystr
  nightweather :: pystr
  daytemp :: int
  nighttemp :: int
  daywind :: pystr
  daypower :: pystr
  nightwind :: pystr
  nightpower :: pystr

record DayPlan =
  date :: pystr
  day_index :: int
  description :: pystr
  day_transportation :: pystr
  day_accommodation :: pystr
  hotel :: "Hotel option"
  attractions :: "Attraction list"
  meals :: "Meal list"

record Budget =
  total_attractions :: rat
  total_hotels :: rat
  total_meals :: rat
  total_transportation :: rat
  total :: rat

record TripPlan =
  plan_city :: pystr
  plan_start_date :: pystr
  plan_end_date :: pystr
  days :: "DayPlan list"
  weather_info :: "WeatherInfo list"
  overall_suggestions :: pystr
  budget :: "Budget option"

section \<open>The fallback plan\<close>

text \<open>
  \<^verbatim>\<open>MultiAgentTripPlanner._create_fallback_plan\<close>. The Chinese literals of the source
  are given by their code points: \<open>U+666F U+70B9\<close> ("scenic spot"), \<open>U+5E02\<close> ("city"),
  \<open>U+7B2C\<close> n \<open>U+5929 U+884C U+7A0B\<close> ("itinerary of day n"), and so on.
\<close>

definition zh_attraction :: pystr where
  "zh_attraction = [26223, 28857]"

definition fallback_location :: "nat \<Rightarrow> nat \<Rightarrow> Location" where
  "fallback_location i j =
     \<lparr> longitude = float_value
         (fadd (fadd (float_of_ratio 1164 10) (fmul (float_of_int (int i)) (float_of_ratio 1 100)))
               (fmul (float_of_int (int j)) (float_of_ratio 5 1000))),
       latitude = float_value
         (fadd (fadd (float_of_ratio 399 10) (fmul (float_of_int (int i)) (float_of_ratio 1 100)))
               (fmul (float_of_int (int j)) (float_of_ratio 5 1000))) \<rparr>"

definition fallback_attraction :: "TripRequest \<Rightarrow> nat \<Rightarrow> nat \<Rightarrow> Attraction" where
  "fallback_attraction request i j =
     \<lparr> attraction_name = city request @ zh_attraction @ str_int (int j + 1),
       attraction_address = city request @ [24066],
       attraction_location = fallback_location i j,
       visit_duration = 120,
       attraction_description = [36825, 26159] @ city request @ [30340, 33879, 21517, 26223, 28857],
       category = zh_attraction,
       ticket_price = None \<rparr>"

definition fallback_meals :: "nat \<Rightarrow> Meal list" where
  "fallback_meals i =
     [ \<lparr> meal_type = breakfast, meal_name = [31532] @ str_int (int i + 1) @ [22825, 26089, 39184],
         meal_description = [24403, 22320, 29305, 33394, 26089, 39184], meal_estimated_cost = None \<rparr>,
       \<lparr> meal_type = lunch, meal_name = [31532] @ str_int (int i + 1) @ [22825, 21320, 39184],
         meal_description = [21320, 39184, 25512, 33616], meal_estimated_cost = None \<rparr>,
       \<lparr> meal_type = dinner, meal_name = [31532] @ str_int (int i + 1) @ [22825, 26202, 39184],
         meal_description = [26202, 39184, 25512, 33616], meal_estimated_cost = None \<rparr> ]"

text \<open>The \<^verbatim>\<open>DayPlan\<close> built in the loop for index \<open>i\<close> and its date.\<close>

definition make_day_plan :: "platform \<Rightarrow> TripRequest \<Rightarrow> date \<Rightarrow> nat \<Rightarrow> DayPlan" where
  "make_day_plan pf request current_date i =
     \<lparr> date = strftime_ymd pf current_date,
       day_index = int i,
       description = [31532] @ str_int (int i + 1) @ [22825, 34892, 31243],
       day_transportation = transportation request,
       day_accommodation = accommodation request,
       hotel = None,
       attractions = map (fallback_attraction request i) [0..<2],
       meals = fallback_meals i \<rparr>"

text \<open>The body of the loop; the date addition comes first and may raise.\<close>

definition fallback_day :: "platform \<Rightarrow> TripRequest \<Rightarrow> date \<Rightarrow> nat \<Rightarrow> error + DayPlan" where
  "fallback_day pf request start i =
     ebind (date_add start i) (\<lambda>current_date. Inr (make_day_plan pf request current_date i))"

text \<open>The loop \<^verbatim>\<open>for i in range(request.travel_days)\<close>, over the list of its indices.\<close>

fun fallback_days :: "platform \<Rightarrow> TripRequest \<Rightarrow> date \<Rightarrow> nat list \<Rightarrow> error + DayPlan list" where
  "fallback_days pf request start [] = Inr []"
| "fallback_days pf request start (i # is) =
     ebind (fallback_day pf request start i) (\<lambda>day_plan.
     ebind (fallback_days pf request start is) (\<lambda>rest. Inr (day_plan # rest)))"

text \<open>The \<^verbatim>\<open>TripPlan\<close> returned at the end.\<close>

definition make_fallback_plan :: "TripRequest \<Rightarrow> DayPlan list \<Rightarrow> TripPlan" where
  "make_fallback_plan request ds =
     \<lparr> plan_city = city request,
       plan_start_date = start_date request,
       plan_end_date = end_date request,
       days = ds,
       weather_info = [],
       overall_suggestions =
         [36825, 26159, 20026, 24744, 35268, 21010, 30340] @ city request
         @ str_int (travel_days request)
         @ [26085, 28216, 34892, 31243, 44, 24314, 35758, 25552, 21069, 26597, 30475, 21508,
            26223, 28857, 30340, 24320, 25918, 26102, 38388, 12290],
       budget = None \<rparr>"

definition create_fallback_plan :: "platform \<Rightarrow> TripRequest \<Rightarrow> error + TripPlan" where
  "create_fallback_plan pf request =
     ebind (strptime_ymd pf (start_date request)) (\<lambda>start.
     ebind (fallback_days pf request start [0..<nat (travel_days request)]) (\<lambda>ds.
       Inr (make_fallback_plan request ds)))"

text \<open>
  A date string in the form YYYY-MM-DD, read digit by digit: ten characters, ASCII
  digits around two hyphens, naming a day that exists.
\<close>

definition ymd_of :: "pystr \<Rightarrow> date option" where
  "ymd_of s =
     (if length s = 10 \<and> (\<forall>k \<in> set [0, 1, 2, 3, 5, 6, 8, 9]. 48 \<le> s ! k \<and> s ! k \<le> 57)
         \<and> s ! 4 = 45 \<and> s ! 7 = 45
      then (let d = Date (1000 * (s ! 0 - 48) + 100 * (s ! 1 - 48) + 10 * (s ! 2 - 48) + (s ! 3 - 48))
                         (10 * (s ! 5 - 48) + (s ! 6 - 48))
                         (10 * (s ! 8 - 48) + (s ! 9 - 48))
            in if valid_date d then Some d else None)
      else None)"

text \<open>The days of a trip of \<open>n\<close> days from \<open>start\<close> on end by 9999-12-31.\<close>

definition dates_in_range :: "date \<Rightarrow> int \<Rightarrow> bool" where
  "dates_in_range start n = (n \<le> 0 \<or> ymd2ord start + nat n \<le> MAXORDINAL + 1)"

section \<open>The mapping service\<close>

text \<open>
  JSON values as \<^verbatim>\<open>json.loads\<close> returns them: \<open>JNull\<close> is \<^verbatim>\<open>None\<close>, \<open>JArr\<close> a list
  and \<open>JObj\<close> a \<^verbatim>\<open>dict\<close>, in which the first entry of a key is the one the dict holds.
\<close>

datatype json =
    JNull
  | JBool bool
  | JNum rat
  | JStr pystr
  | JArr "json list"
  | JObj "(pystr \<times> json) list"

text \<open>
  A remote tool takes a dict of arguments, whose values are strings or \<^verbatim>\<open>None\<close>, and
  raises or returns a list of content items; of an item only its \<^verbatim>\<open>text\<close> entry is
  read, which may be missing. The tool catalog \<^verbatim>\<open>mcp_tools_dict\<close> maps names to
  tools, and a call is recorded as the tool's name with the arguments passed.
\<close>

type_synonym args = "(pystr \<times> pystr option) list"

type_synonym tool = "args \<Rightarrow> error + pystr option list"

type_synonym catalog = "pystr \<Rightarrow> tool option"

type_synonym call = "pystr \<times> args"

text \<open>
  What the code receives from outside, as parameters: the platform tables, the tools
  that \<^verbatim>\<open>get_amap_mcp_tool\<close> discovers (or its failure), \<^verbatim>\<open>json.loads\<close>, the
  conversion between strings and floats done by the \<^verbatim>\<open>Location\<close> model and by
  \<^verbatim>\<open>str\<close>, the validation \<^verbatim>\<open>TripPlan(**data)\<close>, and the planning agent. The agent is
  invoked with the brief that \<^verbatim>\<open>_build_planner_query\<close> writes from the request and
  the three search results, so its reply is a function of these four; it raises or
  returns the contents of the messages of its reply.
\<close>

record env =
  env_platform :: platform
  get_tools :: "error + (pystr \<times> tool) list"
  json_loads :: "pystr \<Rightarrow> error + json"
  float_of_str :: "pystr \<Rightarrow> error + rat"
  str_of_float :: "rat \<Rightarrow> pystr"
  validate_trip_plan :: "json \<Rightarrow> error + TripPlan"
  planner_agent :: "TripRequest \<Rightarrow> json \<Rightarrow> json \<Rightarrow> json \<Rightarrow> error + pystr list"

text \<open>\<^verbatim>\<open>init_mcp_tools\<close>: a later tool of the same name replaces an earlier one.\<close>

definition catalog_of :: "(pystr \<times> tool) list \<Rightarrow> catalog" where
  "catalog_of tools = map_of (rev tools)"

text \<open>\<^verbatim>\<open>json.loads(result[0].get('text'))\<close>.\<close>

definition decode_first :: "env \<Rightarrow> pystr option list \<Rightarrow> error + json" where
  "decode_first env result = (case result of
      [] \<Rightarrow> Inl IndexError
    | content # _ \<Rightarrow> (case content of None \<Rightarrow> Inl TypeError | Some text \<Rightarrow> json_loads env text))"

text \<open>\<^verbatim>\<open>v.get(key)\<close>: only a dict has the method.\<close>

definition json_get :: "json \<Rightarrow> pystr \<Rightarrow> error + json" where
  "json_get v key = (case v of
      JObj entries \<Rightarrow> Inr (case map_of entries key of None \<Rightarrow> JNull | Some x \<Rightarrow> x)
    | _ \<Rightarrow> Inl AttributeError)"

text \<open>The items that \<^verbatim>\<open>for x in v\<close> visits.\<close>

definition json_iter :: "json \<Rightarrow> error + json list" where
  "json_iter v = (case v of
      JArr items \<Rightarrow> Inr items
    | JObj entries \<Rightarrow> Inr (map JStr (remdups (map fst entries)))
    | JStr s \<Rightarrow> Inr (map (\<lambda>c. JStr [c]) s)
    | _ \<Rightarrow> Inl TypeError)"

text \<open>\<^verbatim>\<open>s.split(',')\<close>.\<close>

fun split_on :: "nat \<Rightarrow> pystr \<Rightarrow> pystr list" where
  "split_on c [] = [[]]"
| "split_on c (x # xs) =
     (if x = c then [] # split_on c xs
      else (case split_on c xs of [] \<Rightarrow> [[x]] | p # ps \<Rightarrow> (x # p) # ps))"

subsection \<open>The asynchronous service (\<^verbatim>\<open>amap_service.py\<close>)\<close>

definition get_weather :: "env \<Rightarrow> catalog \<Rightarrow> pystr \<Rightarrow> json \<times> call list" where
  "get_weather env dict city_name = (case dict (ascii ''maps_weather'') of
      None \<Rightarrow> (JArr [], [])
    | Some tool \<Rightarrow>
        (let arguments = [(ascii ''city'', Some city_name)] in
         (case ebind (tool arguments) (\<lambda>result.
               ebind (decode_first env result) (\<lambda>weather_json.
               json_get weather_json (ascii ''forecasts''))) of
            Inl e \<Rightarrow> JArr []
          | Inr forecasts \<Rightarrow> forecasts,
          [(ascii ''maps_weather'', arguments)])))"

definition search_poi :: "env \<Rightarrow> catalog \<Rightarrow> pystr \<Rightarrow> pystr \<Rightarrow> bool \<Rightarrow> json \<times> call list" where
  "search_poi env dict keywords city_name citylimit = (case dict (ascii ''maps_text_search'') of
      None \<Rightarrow> (JArr [], [])
    | Some tool \<Rightarrow>
        (let arguments = [(ascii ''keywords'', Some keywords), (ascii ''city'', Some city_name),
                          (ascii ''citylimit'', Some (if citylimit then ascii ''true'' else ascii ''false''))] in
         (case ebind (tool arguments) (\<lambda>result.
               ebind (decode_first env result) (\<lambda>poi_json.
               json_get poi_json (ascii ''pois''))) of
            Inl e \<Rightarrow> JArr []
          | Inr pois \<Rightarrow> pois,
          [(ascii ''maps_text_search'', arguments)])))"

text \<open>The body of the loop of \<^verbatim>\<open>geocode\<close> for one candidate, and the loop.\<close>

definition make_location :: "env \<Rightarrow> json \<Rightarrow> error + Location" where
  "make_location env item =
     ebind (json_get item (ascii ''location'')) (\<lambda>location.
       (case location of
          JStr s \<Rightarrow> (case split_on 44 s of
              lon # lat # _ \<Rightarrow>
                ebind (float_of_str env lon) (\<lambda>x.
                ebind (float_of_str env lat) (\<lambda>y. Inr \<lparr> longitude = x, latitude = y \<rparr>))
            | _ \<Rightarrow> Inl IndexError)
        | _ \<Rightarrow> Inl AttributeError))"

fun make_locations :: "env \<Rightarrow> json list \<Rightarrow> error + Location list" where
  "make_locations env [] = Inr []"
| "make_locations env (item # items) =
     ebind (make_location env item) (\<lambda>l.
     ebind (make_locations env items) (\<lambda>ls. Inr (l # ls)))"

text \<open>\<^verbatim>\<open>if city:\<close> holds for a string that is not empty.\<close>

definition city_argument :: "pystr option \<Rightarrow> args" where
  "city_argument c = (case c of None \<Rightarrow> [] | Some s \<Rightarrow> (if s = [] then [] else [(ascii ''city'', Some s)]))"

definition geocode :: "env \<Rightarrow> catalog \<Rightarrow> pystr \<Rightarrow> pystr option \<Rightarrow> Location list option \<times> call list" where
  "geocode env dict address c =
     (let arguments = [(ascii ''address'', Some address)] @ city_argument c in
      (case dict (ascii ''maps_geo'') of
         None \<Rightarrow> (None, [])
       | Some tool \<Rightarrow>
           (case ebind (tool arguments) (\<lambda>result.
                 ebind (decode_first env result) (\<lambda>result_json.
                 ebind (json_get result_json (ascii ''results'')) (\<lambda>results.
                 ebind (json_iter results) (make_locations env)))) of
              Inl e \<Rightarrow> None
            | Inr geos \<Rightarrow> Some geos,
            [(ascii ''maps_geo'', arguments)])))"

definition get_poi_detail :: "env \<Rightarrow> catalog \<Rightarrow> pystr \<Rightarrow> json \<times> call list" where
  "get_poi_detail env dict poi_id = (case dict (ascii ''maps_search_detail'') of
      None \<Rightarrow> (JObj [], [])
    | Some tool \<Rightarrow>
        (let arguments = [(ascii ''id'', Some poi_id)] in
         (case ebind (tool arguments) (decode_first env) of
            Inl e \<Rightarrow> JObj []
          | Inr poi_detail_info \<Rightarrow> poi_detail_info,
          [(ascii ''maps_search_detail'', arguments)])))"

text \<open>\<^verbatim>\<open>tool_map.get(route_type, "maps_direction_walking")\<close>.\<close>

definition route_tool_name :: "pystr \<Rightarrow> pystr" where
  "route_tool_name route_type =
     (if route_type = ascii ''walking'' then ascii ''maps_direction_walking''
      else if route_type = ascii ''driving'' then ascii ''maps_direction_driving''
      else if route_type = ascii ''transit'' then ascii ''maps_direction_transit_integrated''
      else ascii ''maps_direction_walking'')"

text \<open>\<^verbatim>\<open>str(locations[0].longitude) + "," + str(locations[0].latitude)\<close>: \<^verbatim>\<open>None\<close> cannot
  be indexed, and an empty list has no first element.\<close>

definition coordinates :: "env \<Rightarrow> Location \<Rightarrow> pystr" where
  "coordinates env l = str_of_float env (longitude l) @ [44] @ str_of_float env (latitude l)"

definition location_str :: "env \<Rightarrow> Location list option \<Rightarrow> error + pystr" where
  "location_str env locations = (case locations of
      None \<Rightarrow> Inl TypeError
    | Some [] \<Rightarrow> Inl IndexError
    | Some (l # _) \<Rightarrow> Inr (coordinates env l))"

definition route_arguments :: "pystr \<Rightarrow> pystr \<Rightarrow> pystr option \<Rightarrow> pystr \<Rightarrow> pystr option \<Rightarrow> args" where
  "route_arguments route_type origin origin_city destination destination_city =
     [(ascii ''origin'', Some origin), (ascii ''destination'', Some destination)]
     @ (if route_type = ascii ''transit''
        then [(ascii ''city1'', origin_city), (ascii ''city2'', destination_city)] else [])"

text \<open>The call of the routing tool and the reading of its result, which both variants
  of \<^verbatim>\<open>plan_route\<close> make inside their \<^verbatim>\<open>try\<close>.\<close>

definition call_route_tool :: "env \<Rightarrow> tool \<Rightarrow> args \<Rightarrow> error + json" where
  "call_route_tool env tool arguments =
     ebind (tool arguments) (\<lambda>result.
     ebind (decode_first env result) (\<lambda>route_json.
     ebind (json_get route_json (ascii ''route'')) (\<lambda>route.
     json_get route (ascii ''paths''))))"

definition plan_route ::
  "env \<Rightarrow> catalog \<Rightarrow> pystr \<Rightarrow> pystr \<Rightarrow> pystr \<Rightarrow> pystr \<Rightarrow> pystr \<Rightarrow> json \<times> call list" where
  "plan_route env dict origin_address origin_city destination_address destination_city route_type =
     (let tool_name = route_tool_name route_type in
      (case geocode env dict origin_address (Some origin_city) of (origin_locations, t1) \<Rightarrow>
       (case location_str env origin_locations of
          Inl e \<Rightarrow> (JArr [], t1)
        | Inr origin \<Rightarrow>
           (case geocode env dict destination_address (Some destination_city) of (destination_locations, t2) \<Rightarrow>
            (case location_str env destination_locations of
               Inl e \<Rightarrow> (JArr [], t1 @ t2)
             | Inr destination \<Rightarrow>
                (let arguments = route_arguments route_type origin (Some origin_city)
                                   destination (Some destination_city) in
                 (case dict tool_name of
                    None \<Rightarrow> (JArr [], t1 @ t2)
                  | Some tool \<Rightarrow>
                      (case call_route_tool env tool arguments of
                         Inl e \<Rightarrow> JArr []
                       | Inr paths \<Rightarrow> paths,
                       t1 @ t2 @ [(tool_name, arguments)]))))))))"

subsection \<open>The synchronous wrapper (\<^verbatim>\<open>amap_service_sync.py\<close>)\<close>

text \<open>
  Each operation runs its inner coroutine to completion. The inner coroutines of
  \<^verbatim>\<open>get_weather\<close>, \<^verbatim>\<open>search_poi\<close>, \<^verbatim>\<open>geocode\<close> and \<^verbatim>\<open>get_poi_detail\<close> repeat the text of
  the asynchronous operations.
\<close>

definition sync_get_weather :: "env \<Rightarrow> catalog \<Rightarrow> pystr \<Rightarrow> json \<times> call list" where
  "sync_get_weather env dict city_name = (case dict (ascii ''maps_weather'') of
      None \<Rightarrow> (JArr [], [])
    | Some tool \<Rightarrow>
        (let arguments = [(ascii ''city'', Some city_name)] in
         (case ebind (tool arguments) (\<lambda>result.
               ebind (decode_first env result) (\<lambda>weather_json.
               json_get weather_json (ascii ''forecasts''))) of
            Inl e \<Rightarrow> JArr []
          | Inr forecasts \<Rightarrow> forecasts,
          [(ascii ''maps_weather'', arguments)])))"

definition sync_search_poi :: "env \<Rightarrow> catalog \<Rightarrow> pystr \<Rightarrow> pystr \<Rightarrow> bool \<Rightarrow> json \<times> call list" where
  "sync_search_poi env dict keywords city_name citylimit = (case dict (ascii ''maps_text_search'') of
      None \<Rightarrow> (JArr [], [])
    | Some tool \<Rightarrow>
        (let arguments = [(ascii ''keywords'', Some keywords), (ascii ''city'', Some city_name),
                          (ascii ''citylimit'', Some (if citylimit then ascii ''true'' else ascii ''false''))] in
         (case ebind (tool arguments) (\<lambda>result.
               ebind (decode_first env result) (\<lambda>poi_json.
               json_get poi_json (ascii ''pois''))) of
            Inl e \<Rightarrow> JArr []
          | Inr pois \<Rightarrow> pois,
          [(ascii ''maps_text_search'', arguments)])))"

definition sync_geocode :: "env \<Rightarrow> catalog \<Rightarrow> pystr \<Rightarrow> pystr option \<Rightarrow> Location list option \<times> call list" where
  "sync_geocode env dict address c =
     (let arguments = [(ascii ''address'', Some address)] @ city_argument c in
      (case dict (ascii ''maps_geo'') of
         None \<Rightarrow> (None, [])
       | Some tool \<Rightarrow>
           (case ebind (tool arguments) (\<lambda>result.
                 ebind (decode_first env result) (\<lambda>result_json.
                 ebind (json_get result_json (ascii ''results'')) (\<lambda>results.
                 ebind (json_iter results) (make_locations env)))) of
              Inl e \<Rightarrow> None
            | Inr geos \<Rightarrow> Some geos,
            [(ascii ''maps_geo'', arguments)])))"

definition sync_get_poi_detail :: "env \<Rightarrow> catalog \<Rightarrow> pystr \<Rightarrow> json \<times> call list" where
  "sync_get_poi_detail env dict poi_id = (case dict (ascii ''maps_search_detail'') of
      None \<Rightarrow> (JObj [], [])
    | Some tool \<Rightarrow>
        (let arguments = [(ascii ''id'', Some poi_id)] in
         (case ebind (tool arguments) (decode_first env) of
            Inl e \<Rightarrow> JObj []
          | Inr poi_detail_info \<Rightarrow> poi_detail_info,
          [(ascii ''maps_search_detail'', arguments)])))"

text \<open>The inner coroutine \<^verbatim>\<open>_play_route_async\<close>, which gets the coordinates as strings.\<close>

definition play_route_async ::
  "env \<Rightarrow> catalog \<Rightarrow> pystr \<Rightarrow> pystr option \<Rightarrow> pystr \<Rightarrow> pystr option \<Rightarrow> pystr \<Rightarrow> json \<times> call list" where
  "play_route_async env dict origin origin_city destination destination_city route_type =
     (let tool_name = route_tool_name route_type;
          arguments = route_arguments route_type origin origin_city destination destination_city in
      (case dict tool_name of
         None \<Rightarrow> (JArr [], [])
       | Some tool \<Rightarrow>
           (case call_route_tool env tool arguments of
              Inl e \<Rightarrow> JArr []
            | Inr paths \<Rightarrow> paths,
            [(tool_name, arguments)])))"

text \<open>The public \<^verbatim>\<open>plan_route\<close> geocodes both addresses before it enters the
  coroutine, outside any \<^verbatim>\<open>try\<close>: an exception there reaches the caller.\<close>

definition sync_plan_route ::
  "env \<Rightarrow> catalog \<Rightarrow> pystr \<Rightarrow> pystr \<Rightarrow> pystr option \<Rightarrow> pystr option \<Rightarrow> pystr
     \<Rightarrow> (error + json) \<times> call list" where
  "sync_plan_route env dict origin_address destination_address origin_city destination_city route_type =
     (case sync_geocode env dict origin_address origin_city of (origin_locations, t1) \<Rightarrow>
      (case location_str env origin_locations of
         Inl e \<Rightarrow> (Inl e, t1)
       | Inr origin \<Rightarrow>
          (case sync_geocode env dict destination_address destination_city of (destination_locations, t2) \<Rightarrow>
           (case location_str env destination_locations of
              Inl e \<Rightarrow> (Inl e, t1 @ t2)
            | Inr destination \<Rightarrow>
               (case play_route_async env dict origin origin_city destination destination_city route_type of
                  (paths, t3) \<Rightarrow> (Inr paths, t1 @ t2 @ t3))))))"

section \<open>The trip planner\<close>

text \<open>The extraction of the JSON text in \<^verbatim>\<open>_parse_response\<close>.\<close>

definition extract_json :: "pystr \<Rightarrow> error + pystr" where
  "extract_json response =
     (if py_in (ascii ''```json'') response then
        (let json_start = py_find response (ascii ''```json'') 0 + 7;
             json_end = py_find response (ascii ''```'') (nat json_start)
         in Inr (py_strip (py_slice response json_start json_end)))
      else if py_in (ascii ''```'') response then
        (let json_start = py_find response (ascii ''```'') 0 + 3;
             json_end = py_find response (ascii ''```'') (nat json_start)
         in Inr (py_strip (py_slice response json_start json_end)))
      else if py_in [123] response \<and> py_in [125] response then
        (let json_start = py_find response [123] 0;
             json_end = py_rfind response 125 + 1
         in Inr (py_slice response json_start json_end))
      else Inl ValueError)"

text \<open>The \<^verbatim>\<open>try\<close> block of \<^verbatim>\<open>_parse_response\<close>, and the method with its handler.\<close>

definition decode_response :: "env \<Rightarrow> pystr \<Rightarrow> error + TripPlan" where
  "decode_response env response =
     ebind (extract_json response) (\<lambda>json_str.
     ebind (json_loads env json_str) (\<lambda>data.
     validate_trip_plan env data))"

definition parse_response :: "env \<Rightarrow> pystr \<Rightarrow> TripRequest \<Rightarrow> error + TripPlan" where
  "parse_response env response request = (case decode_response env response of
      Inr trip_plan \<Rightarrow> Inr trip_plan
    | Inl e \<Rightarrow> create_fallback_plan (env_platform env) request)"

text \<open>
  The keywords of the two searches of \<^verbatim>\<open>plan_trip\<close>. The hotel keyword is the string
  literal \<^verbatim>\<open>"{request.accommodation}"\<close> followed by \<open>U+9152 U+5E97\<close> ("hotel"): the source
  has no \<^verbatim>\<open>f\<close> before the quotes.
\<close>

definition attraction_keyword :: "TripRequest \<Rightarrow> pystr" where
  "attraction_keyword request = (case preferences request of [] \<Rightarrow> zh_attraction | p # _ \<Rightarrow> p)"

definition hotel_keyword :: pystr where
  "hotel_keyword = ascii ''{request.accommodation}'' @ [37202, 24215]"

text \<open>The \<^verbatim>\<open>try\<close> block of \<^verbatim>\<open>plan_trip\<close>, and the method with its handler, which calls
  the fallback generator outside any \<^verbatim>\<open>try\<close>.\<close>

definition plan_trip_body :: "env \<Rightarrow> TripRequest \<Rightarrow> (error + TripPlan) \<times> call list" where
  "plan_trip_body env request = (case get_tools env of
      Inl e \<Rightarrow> (Inl e, [])
    | Inr tools \<Rightarrow>
        (let dict = catalog_of tools in
         (case search_poi env dict (attraction_keyword request) (city request) True of
            (attraction_response, t1) \<Rightarrow>
         (case get_weather env dict (city request) of
            (weather_response, t2) \<Rightarrow>
         (case search_poi env dict hotel_keyword (city request) True of
            (hotel_response, t3) \<Rightarrow>
           (ebind (planner_agent env request attraction_response weather_response hotel_response)
              (\<lambda>messages. if messages = [] then Inl IndexError
                 else parse_response env (last messages) request),
            t1 @ t2 @ t3))))))"

definition plan_trip :: "env \<Rightarrow> TripRequest \<Rightarrow> (error + TripPlan) \<times> call list" where
  "plan_trip env request = (case plan_trip_body env request of
      (Inr trip_plan, t) \<Rightarrow> (Inr trip_plan, t)
    | (Inl e, t) \<Rightarrow> (create_fallback_plan (env_platform env) request, t))"


section \<open>The singletons\<close>

text \<open>
  The accessors \<^verbatim>\<open>get_llm\<close>, \<^verbatim>\<open>get_llm_DouBao\<close>, \<^verbatim>\<open>get_amap_service\<close> and
  \<^verbatim>\<open>get_trip_planner_agent\<close> keep their instance in a global variable of their module.
  Objects live in a store and are known by their reference, the position at which they
  were created: two objects with equal fields have different references, and an object
  is constructed exactly when the store grows.
\<close>

type_synonym ref = nat

datatype object =
    HelloAgentsLLM
  | ChatOpenAI "pystr option" "pystr option"
  | AmapService
  | Agent ref
  | MultiAgentTripPlanner "ref option" "ref option" "ref option"

text \<open>
  The state of the process: the four globals, the environment variable
  \<^verbatim>\<open>OPENAI_API_KEY\<close>, and the store. \<^verbatim>\<open>MultiAgentTripPlanner\<close> holds its attributes
  \<^verbatim>\<open>llm\<close>, \<^verbatim>\<open>llm_doubao\<close> and \<^verbatim>\<open>planner_agent\<close>, each missing until it is assigned.
\<close>

record process =
  llm_instance :: "ref option"
  llm_instance_doubao :: "ref option"
  amap_service :: "ref option"
  multi_agent_planner :: "ref option"
  openai_api_key_variable :: "pystr option"
  heap :: "object list"

text \<open>
  Modelled from the spec: the settings record of \<^verbatim>\<open>app/config.py\<close>, which is not part of
  the supplied source. \<^verbatim>\<open>get_settings()\<close> returns the cached settings record, so every call
  in a process has the same outcome; of the record the accessors read three fields.
\<close>

record settings =
  openai_api_key :: "pystr option"
  openai_model :: "pystr option"
  openai_base_url :: "pystr option"

text \<open>
  What the accessors receive from the libraries, as parameters: the outcome of
  \<^verbatim>\<open>get_settings()\<close>; whether the constructors \<^verbatim>\<open>HelloAgentsLLM()\<close> and \<^verbatim>\<open>ChatOpenAI(...)\<close>
  raise, which may depend on the environment variable; whether \<^verbatim>\<open>create_agent\<close> raises;
  whether the environment refuses a value for the variable; and the truth value that
  a \<^verbatim>\<open>ChatOpenAI\<close> object has in a condition.
\<close>

record world =
  get_settings :: "error + settings"
  hello_agents_llm :: "pystr option \<Rightarrow> error option"
  chat_openai :: "pystr option \<Rightarrow> settings \<Rightarrow> error option"
  create_agent :: "ref \<Rightarrow> error option"
  environ_set :: "pystr \<Rightarrow> error option"
  chat_openai_truth :: bool

text \<open>The construction of an object: it is put at the end of the store.\<close>

definition alloc :: "object \<Rightarrow> process \<Rightarrow> ref \<times> process" where
  "alloc obj s = (length (heap s), s \<lparr> heap := heap s @ [obj] \<rparr>)"

text \<open>\<^verbatim>\<open>get_llm\<close> of \<^verbatim>\<open>llm_service.py\<close>, which tests \<^verbatim>\<open>_llm_instance is None\<close>.\<close>

definition get_llm :: "world \<Rightarrow> process \<Rightarrow> (error + ref) \<times> process" where
  "get_llm w s = (case llm_instance s of
      Some r \<Rightarrow> (Inr r, s)
    | None \<Rightarrow>
        (case get_settings w of
           Inl e \<Rightarrow> (Inl e, s)
         | Inr settings \<Rightarrow>
             (case hello_agents_llm w (openai_api_key_variable s) of
                Some e \<Rightarrow> (Inl e, s)
              | None \<Rightarrow>
                  (case alloc HelloAgentsLLM s of
                     (r, s1) \<Rightarrow> (Inr r, s1 \<lparr> llm_instance := Some r \<rparr>)))))"

text \<open>\<^verbatim>\<open>if not os.environ.get('OPENAI_API_KEY')\<close>: the variable is unset or empty. The
  assignment to \<^verbatim>\<open>os.environ\<close> needs a string.\<close>

definition ensure_api_key :: "world \<Rightarrow> settings \<Rightarrow> process \<Rightarrow> error + process" where
  "ensure_api_key w settings s =
     (if openai_api_key_variable s = None \<or> openai_api_key_variable s = Some []
      then (case openai_api_key settings of
              None \<Rightarrow> Inl TypeError
            | Some k \<Rightarrow> (case environ_set w k of
                  Some e \<Rightarrow> Inl e
                | None \<Rightarrow> Inr (s \<lparr> openai_api_key_variable := Some k \<rparr>)))
      else Inr s)"

text \<open>\<^verbatim>\<open>get_llm_DouBao\<close>, which reads the settings on every call and tests
  \<^verbatim>\<open>not _llm_instance_doubao\<close>, the truth value of the instance.\<close>

definition new_chat_openai :: "world \<Rightarrow> settings \<Rightarrow> process \<Rightarrow> (error + ref) \<times> process" where
  "new_chat_openai w settings s =
     (case chat_openai w (openai_api_key_variable s) settings of
        Some e \<Rightarrow> (Inl e, s)
      | None \<Rightarrow>
          (case alloc (ChatOpenAI (openai_model settings) (openai_base_url settings)) s of
             (r, s1) \<Rightarrow> (Inr r, s1 \<lparr> llm_instance_doubao := Some r \<rparr>)))"

definition get_llm_DouBao :: "world \<Rightarrow> process \<Rightarrow> (error + ref) \<times> process" where
  "get_llm_DouBao w s = (case get_settings w of
      Inl e \<Rightarrow> (Inl e, s)
    | Inr settings \<Rightarrow>
        (case ensure_api_key w settings s of
           Inl e \<Rightarrow> (Inl e, s)
         | Inr s1 \<Rightarrow>
             (case llm_instance_doubao s1 of
                None \<Rightarrow> new_chat_openai w settings s1
              | Some r \<Rightarrow>
                  if chat_openai_truth w then (Inr r, s1) else new_chat_openai w settings s1)))"

text \<open>\<^verbatim>\<open>reset_llm\<close>.\<close>

definition reset_llm :: "process \<Rightarrow> process" where
  "reset_llm s = s \<lparr> llm_instance := None \<rparr>"

text \<open>\<^verbatim>\<open>get_amap_service\<close> of \<^verbatim>\<open>amap_service.py\<close>; the constructor of the service does
  nothing.\<close>

definition get_amap_service :: "process \<Rightarrow> ref \<times> process" where
  "get_amap_service s = (case amap_service s of
      Some r \<Rightarrow> (r, s)
    | None \<Rightarrow> (case alloc AmapService s of (r, s1) \<Rightarrow> (r, s1 \<lparr> amap_service := Some r \<rparr>)))"

text \<open>\<^verbatim>\<open>MultiAgentTripPlanner()\<close>: the object is created, then \<^verbatim>\<open>__init__\<close> assigns its
  two models.\<close>

definition new_trip_planner :: "world \<Rightarrow> process \<Rightarrow> (error + ref) \<times> process" where
  "new_trip_planner w s =
     (case alloc (MultiAgentTripPlanner None None None) s of
        (self, s0) \<Rightarrow>
          (case get_llm w s0 of
             (Inl e, s1) \<Rightarrow> (Inl e, s1)
           | (Inr llm, s1) \<Rightarrow>
               (case get_llm_DouBao w
                       (s1 \<lparr> heap := (heap s1)[self := MultiAgentTripPlanner (Some llm) None None] \<rparr>) of
                  (Inl e, s2) \<Rightarrow> (Inl e, s2)
                | (Inr doubao, s2) \<Rightarrow>
                    (Inr self,
                     s2 \<lparr> heap := (heap s2)[self := MultiAgentTripPlanner (Some llm) (Some doubao) None] \<rparr>))))"

text \<open>\<^verbatim>\<open>initialize_agents\<close>: the agent is created from \<^verbatim>\<open>self.llm_doubao\<close> and assigned;
  an exception is printed and raised again.\<close>

definition initialize_agents :: "world \<Rightarrow> ref \<Rightarrow> process \<Rightarrow> (error + unit) \<times> process" where
  "initialize_agents w self s =
     (if self < length (heap s) then
        (case heap s ! self of
           MultiAgentTripPlanner llm (Some doubao) agent \<Rightarrow>
             (case create_agent w doubao of
                Some e \<Rightarrow> (Inl e, s)
              | None \<Rightarrow>
                  (case alloc (Agent doubao) s of
                     (a, s1) \<Rightarrow>
                       (Inr (),
                        s1 \<lparr> heap := (heap s1)[self := MultiAgentTripPlanner llm (Some doubao) (Some a)] \<rparr>)))
         | _ \<Rightarrow> (Inl AttributeError, s))
      else (Inl AttributeError, s))"

text \<open>\<^verbatim>\<open>get_trip_planner_agent\<close>: the global is assigned before the agents are
  initialized.\<close>

definition get_trip_planner_agent :: "world \<Rightarrow> process \<Rightarrow> (error + ref) \<times> process" where
  "get_trip_planner_agent w s = (case multi_agent_planner s of
      Some r \<Rightarrow> (Inr r, s)
    | None \<Rightarrow>
        (case new_trip_planner w s of
           (Inl e, s1) \<Rightarrow> (Inl e, s1)
         | (Inr r, s1) \<Rightarrow>
             (case initialize_agents w r (s1 \<lparr> multi_agent_planner := Some r \<rparr>) of
                (Inl e, s2) \<Rightarrow> (Inl e, s2)
              | (Inr u, s2) \<Rightarrow> (Inr r, s2))))"

section \<open>Concrete inputs\<close>

text \<open>A platform without further digits that prints small years unpadded, and requests
  for Beijing (\<open>U+5317 U+4EAC\<close>) from 2024-05-01 on.\<close>

definition pf0 :: platform where
  "pf0 = \<lparr> nd_digit = Map.empty, small_year = digits \<rparr>"

definition req0 :: TripRequest where
  "req0 = \<lparr> city = [21271, 20140], start_date = ascii ''2024-05-01'', end_date = ascii ''2024-05-02'',
     travel_days = 2, transportation = ascii ''bus'', accommodation = ascii ''hotel'',
     preferences = [], free_text_input = None \<rparr>"

definition req_overflow :: TripRequest where
  "req_overflow = \<lparr> city = [21271, 20140], start_date = ascii ''2024-05-01'', end_date = ascii ''2024-05-02'',
     travel_days = 2913054, transportation = ascii ''bus'', accommodation = ascii ''hotel'',
     preferences = [], free_text_input = None \<rparr>"

definition req_bad_date :: TripRequest where
  "req_bad_date = \<lparr> city = [21271, 20140], start_date = ascii ''tomorrow'', end_date = ascii ''2024-05-02'',
     travel_days = 2, transportation = ascii ''bus'', accommodation = ascii ''hotel'',
     preferences = [], free_text_input = None \<rparr>"

definition req_last_day :: TripRequest where
  "req_last_day = \<lparr> city = [21271, 20140], start_date = ascii ''9999-12-31'', end_date = ascii ''9999-12-31'',
     travel_days = 2, transportation = ascii ''bus'', accommodation = ascii ''hotel'',
     preferences = [], free_text_input = None \<rparr>"

text \<open>
  A small outside world. The decoder knows three payloads: an empty object, a geocoding
  result with one candidate at \<open>116.5,39.75\<close>, and a route result without paths. The
  tools answer with these payloads whatever their arguments are; the validation of a
  plan refuses everything, and the agent replies with a sentence that holds no JSON.
\<close>

definition loads0 :: "pystr \<Rightarrow> error + json" where
  "loads0 s =
     (if s = ascii ''{}'' then Inr (JObj [])
      else if s = ascii ''geo'' then
        Inr (JObj [(ascii ''results'', JArr [JObj [(ascii ''location'', JStr (ascii ''116.5,39.75''))]])])
      else if s = ascii ''route'' then
        Inr (JObj [(ascii ''route'', JObj [(ascii ''paths'', JArr [])])])
      else Inl JSONDecodeError)"

definition float_of_str0 :: "pystr \<Rightarrow> error + rat" where
  "float_of_str0 s =
     (if s = ascii ''116.5'' then Inr (233 / 2)
      else if s = ascii ''39.75'' then Inr (159 / 4)
      else Inl ValidationError)"

definition str_of_float0 :: "rat \<Rightarrow> pystr" where
  "str_of_float0 x =
     (if x = 233 / 2 then ascii ''116.5'' else if x = 159 / 4 then ascii ''39.75'' else ascii ''0.0'')"

definition answer :: "pystr \<Rightarrow> tool" where
  "answer payload = (\<lambda>arguments. Inr [Some payload])"

definition tools0 :: "(pystr \<times> tool) list" where
  "tools0 =
     [(ascii ''maps_geo'', answer (ascii ''geo'')),
      (ascii ''maps_text_search'', answer (ascii ''{}'')),
      (ascii ''maps_weather'', answer (ascii ''{}'')),
      (ascii ''maps_direction_walking'', answer (ascii ''route'')),
      (ascii ''maps_direction_driving'', answer (ascii ''route'')),
      (ascii ''maps_direction_transit_integrated'', answer (ascii ''route''))]"

definition env0 :: env where
  "env0 = \<lparr> env_platform = pf0, get_tools = Inr tools0, json_loads = loads0,
     float_of_str = float_of_str0, str_of_float = str_of_float0,
     validate_trip_plan = (\<lambda>data. Inl ValidationError),
     planner_agent = (\<lambda>request attractions weather hotels. Inr [ascii ''no json here'']) \<rparr>"

text \<open>The same world when the discovery of the tools fails.\<close>

definition env_down :: env where
  "env_down = env0 \<lparr> get_tools := Inl RemoteError \<rparr>"

text \<open>A geocoding tool that cannot be reached, and the catalog that holds only it.\<close>

definition unreachable :: tool where
  "unreachable = (\<lambda>arguments. Inl RemoteError)"

definition tools_geo_down :: "(pystr \<times> tool) list" where
  "tools_geo_down = [(ascii ''maps_geo'', unreachable)]"

text \<open>
  A world in which the text search and the weather tool cannot be reached, while the
  agent replies \<^verbatim>\<open>{}\<close> when all three search results it is given are empty lists, and
  the validation makes of every decoded reply a plan without days.
\<close>

definition agent_plan :: TripPlan where
  "agent_plan = \<lparr> plan_city = [21271, 20140], plan_start_date = ascii ''2024-05-01'',
     plan_end_date = ascii ''2024-05-02'', days = [], weather_info = [],
     overall_suggestions = ascii ''ok'', budget = None \<rparr>"

definition tools_unreachable :: "(pystr \<times> tool) list" where
  "tools_unreachable = [(ascii ''maps_text_search'', unreachable), (ascii ''maps_weather'', unreachable)]"

definition env_agent :: env where
  "env_agent = env0 \<lparr> get_tools := Inr tools_unreachable,
     validate_trip_plan := (\<lambda>data. Inr agent_plan),
     planner_agent := (\<lambda>request attractions weather hotels.
       if attractions = JArr [] \<and> weather = JArr [] \<and> hotels = JArr []
       then Inr [ascii ''{}''] else Inl RemoteError) \<rparr>"

text \<open>
  A process that has just started, without the variable \<^verbatim>\<open>OPENAI_API_KEY\<close>, and
  libraries whose constructors succeed; the settings hold the key \<^verbatim>\<open>sk\<close>.
\<close>

definition settings0 :: settings where
  "settings0 = \<lparr> openai_api_key = Some (ascii ''sk''), openai_model = Some (ascii ''doubao''),
     openai_base_url = Some (ascii ''https://example.com/v1'') \<rparr>"

definition world0 :: world where
  "world0 = \<lparr> get_settings = Inr settings0, hello_agents_llm = (\<lambda>key. None),
     chat_openai = (\<lambda>key settings. None), create_agent = (\<lambda>model. None),
     environ_set = (\<lambda>value. None), chat_openai_truth = True \<rparr>"

definition process0 :: process where
  "process0 = \<lparr> llm_instance = None, llm_instance_doubao = None, amap_service = None,
     multi_agent_planner = None, openai_api_key_variable = None, heap = [] \<rparr>"

section \<open>Dates\<close>

lemmas strptime_defs = strptime_ymd_def parse_year_def digit_val_def month_alts_def day_alts_def
  two_chars_def one_char_def teens_def space_digit_def dash_def make_date_def

lemma list10:
  assumes "length s = 10"
  obtains a b c d e f g h i j where "s = [a, b, c, d, e, f, g, h, i, j]"
proof -
  from assms have "\<exists>a b c d e f g h i j. s = [a, b, c, d, e, f, g, h, i, j]"
    by (simp add: eval_nat_numeral length_Suc_conv) blast
  then show ?thesis using that by blast
qed

lemma strptime_ymd_of:
  assumes "ymd_of s = Some d"
  shows "strptime_ymd pf s = Inr d"
proof -
  from assms have len: "length s = 10"
    by (auto simp: ymd_of_def split: if_splits)
  then obtain a b c d' e f g h i j where s: "s = [a, b, c, d', e, f, g, h, i, j]"
    by (rule list10)
  from assms s have dig: "48 \<le> a" "a \<le> 57" "48 \<le> b" "b \<le> 57" "48 \<le> c" "c \<le> 57" "48 \<le> d'" "d' \<le> 57"
     "e = 45" "48 \<le> f" "f \<le> 57" "48 \<le> g" "g \<le> 57" "h = 45" "48 \<le> i" "i \<le> 57" "48 \<le> j" "j \<le> 57"
    by (auto simp: ymd_of_def split: if_splits)
  define y where "y = 1000 * (a - 48) + 100 * (b - 48) + 10 * (c - 48) + (d' - 48)"
  define m where "m = 10 * (f - 48) + (g - 48)"
  define dd where "dd = 10 * (i - 48) + (j - 48)"
  from assms s have d: "d = Date y m dd" and v: "valid_date (Date y m dd)"
    by (auto simp: ymd_of_def Let_def y_def m_def dd_def split: if_splits)
  from v have m12: "1 \<le> m" "m \<le> 12" and d31: "1 \<le> dd" "dd \<le> 31"
    by (auto simp: valid_date_def days_in_month_def split: if_splits)
  have py: "parse_year pf s = Some (y, [e, f, g, h, i, j])"
    using dig by (simp add: s parse_year_def digit_val_def y_def)
  have ma: "concat (map (\<lambda>(m, r3). concat (map (\<lambda>r4. map (\<lambda>(d, r5). (m, d, r5)) (day_alts pf r4)) (dash r3))) (month_alts [f, g, h, i, j]))
       = map (\<lambda>(d, r5). (m, d, r5)) (day_alts pf [i, j])"
    using dig m12 by (auto simp: month_alts_def two_chars_def one_char_def dash_def m_def)
  have da: "\<exists>rest. day_alts pf [i, j] = (dd, []) # rest"
    using dig d31 by (auto simp: day_alts_def two_chars_def one_char_def teens_def space_digit_def digit_val_def dd_def)
  show ?thesis
    using py ma da v by (auto simp: strptime_ymd_def s dash_def dig make_date_def d)
qed

section \<open>The fallback plan\<close>

lemmas float_defs = fadd_def fmul_def fround_def float_of_ratio_def float_of_int_def rne_div_def
  ilog2.simps Let_def float_value_def

lemmas ordinal_defs = ymd2ord_def days_before_year_def days_before_month_def days_in_month_def
  is_leap_def MAXORDINAL_def

lemma strptime_error: "strptime_ymd pf s = Inl e \<Longrightarrow> e = ValueError"
  by (auto simp: strptime_ymd_def make_date_def split: option.splits list.splits if_splits prod.splits)

lemma strptime_2024_05_01: "strptime_ymd pf (ascii ''2024-05-01'') = Inr (Date 2024 5 1)"
  by (rule strptime_ymd_of) (simp add: ymd_of_def ascii_def valid_date_def days_in_month_def)

lemma ymd2ord_2024_05_01: "ymd2ord (Date 2024 5 1) = 739007"
  by (simp add: ordinal_defs upt_rec [of _ "numeral _"] upt_rec [of 1])

lemma date_add_ok: "ymd2ord start + n \<le> MAXORDINAL \<Longrightarrow> date_add start n = Inr (add_days start n)"
  by (simp add: date_add_def MAXORDINAL_def)

lemma date_add_overflow: "MAXORDINAL < ymd2ord start + n \<Longrightarrow> date_add start n = Inl OverflowError"
  by (simp add: date_add_def)

lemma fallback_days_ok:
  "\<forall>i \<in> set is. ymd2ord start + i \<le> MAXORDINAL \<Longrightarrow>
   fallback_days pf request start is = Inr (map (\<lambda>i. make_day_plan pf request (add_days start i) i) is)"
  by (induction "is") (simp_all add: fallback_day_def ebind_def date_add_ok)

lemma fallback_days_overflow:
  "i \<in> set is \<Longrightarrow> MAXORDINAL < ymd2ord start + i \<Longrightarrow>
   fallback_days pf request start is = Inl OverflowError"
proof (induction "is")
  case Nil
  then show ?case by simp
next
  case (Cons a as)
  show ?case
  proof (cases "MAXORDINAL < ymd2ord start + a")
    case True
    then show ?thesis by (simp add: fallback_day_def ebind_def date_add_overflow)
  next
    case False
    with Cons have "fallback_days pf request start as = Inl OverflowError" by auto
    with False show ?thesis by (simp add: fallback_day_def ebind_def date_add_ok)
  qed
qed

lemma create_fallback_plan_cases:
  "create_fallback_plan pf request =
    (case strptime_ymd pf (start_date request) of
       Inl e \<Rightarrow> Inl ValueError
     | Inr start \<Rightarrow>
         if dates_in_range start (travel_days request)
         then Inr (make_fallback_plan request
                (map (\<lambda>i. make_day_plan pf request (add_days start i) i) [0..<nat (travel_days request)]))
         else Inl OverflowError)"
proof (cases "strptime_ymd pf (start_date request)")
  case (Inl e)
  then show ?thesis using strptime_error [OF Inl] by (simp add: create_fallback_plan_def ebind_def)
next
  case (Inr start)
  show ?thesis
  proof (cases "dates_in_range start (travel_days request)")
    case True
    then have "\<forall>i \<in> set [0..<nat (travel_days request)]. ymd2ord start + i \<le> MAXORDINAL"
      by (auto simp: dates_in_range_def)
    from fallback_days_ok [OF this] Inr True show ?thesis
      by (simp add: create_fallback_plan_def ebind_def)
  next
    case False
    then have "nat (travel_days request) - 1 \<in> set [0..<nat (travel_days request)]"
      and "MAXORDINAL < ymd2ord start + (nat (travel_days request) - 1)"
      by (auto simp: dates_in_range_def)
    from fallback_days_overflow [OF this] Inr False show ?thesis
      by (simp add: create_fallback_plan_def ebind_def)
  qed
qed

lemma strftime_2024_05_01: "strftime_ymd pf (Date 2024 5 1) = ascii ''2024-05-01''"
  by (simp add: strftime_ymd_def year_text_def pad2_def digits.simps ascii_def)

lemma strftime_2024_05_02: "strftime_ymd pf (next_day (Date 2024 5 1)) = ascii ''2024-05-02''"
  by (simp add: strftime_ymd_def year_text_def pad2_def digits.simps ascii_def next_day_def days_in_month_def)

text \<open>
  Claim C3, as amended. For a request with \<open>start_date = "2024-05-01"\<close> and
  \<open>travel_days = N\<close>, \<open>1 \<le> N \<le> 2913053\<close> (so that the last day is not after 9999-12-31),
  the fallback generator returns a plan with exactly \<open>N\<close> days, whose \<open>day_index\<close> fields
  are \<open>0, \<dots>, N - 1\<close> in order and whose dates are 2024-05-01, 2024-05-02, \<dots>, each the
  calendar day after the one before.
\<close>

theorem fallback_plan_consecutive_days:
  assumes "start_date request = ascii ''2024-05-01''"
    and "1 \<le> travel_days request" and "travel_days request \<le> 2913053"
  shows "\<exists>plan. create_fallback_plan pf request = Inr plan
     \<and> length (days plan) = nat (travel_days request)
     \<and> (\<forall>i < nat (travel_days request).
           day_index (days plan ! i) = int i
         \<and> date (days plan ! i) = strftime_ymd pf (add_days (Date 2024 5 1) i))
     \<and> (\<forall>i. Suc i < nat (travel_days request) \<longrightarrow>
           (\<exists>d. date (days plan ! i) = strftime_ymd pf d
              \<and> date (days plan ! Suc i) = strftime_ymd pf (next_day d)))
     \<and> date (days plan ! 0) = ascii ''2024-05-01''
     \<and> (2 \<le> travel_days request \<longrightarrow> date (days plan ! 1) = ascii ''2024-05-02'')"
proof -
  let ?n = "nat (travel_days request)"
  let ?ds = "map (\<lambda>i. make_day_plan pf request (add_days (Date 2024 5 1) i) i) [0..<?n]"
  have range: "dates_in_range (Date 2024 5 1) (travel_days request)"
    using assms ymd2ord_2024_05_01 by (simp add: dates_in_range_def MAXORDINAL_def)
  have plan: "create_fallback_plan pf request = Inr (make_fallback_plan request ?ds)"
    using range by (simp add: create_fallback_plan_cases assms(1) strptime_2024_05_01)
  have days: "days (make_fallback_plan request ?ds) = ?ds"
    by (simp add: make_fallback_plan_def)
  have nth: "?ds ! i = make_day_plan pf request (add_days (Date 2024 5 1) i) i" if "i < ?n" for i
    using that by simp
  have fields: "day_index (?ds ! i) = int i \<and> date (?ds ! i) = strftime_ymd pf (add_days (Date 2024 5 1) i)"
    if "i < ?n" for i
    using that by (simp add: make_day_plan_def)
  have step: "\<exists>d. date (?ds ! i) = strftime_ymd pf d \<and> date (?ds ! Suc i) = strftime_ymd pf (next_day d)"
    if "Suc i < ?n" for i
  proof -
    from that have "i < ?n" by simp
    with that fields [of i] fields [of "Suc i"] show ?thesis by auto
  qed
  have first: "date (?ds ! 0) = ascii ''2024-05-01''"
    using assms(2) fields [of 0] strftime_2024_05_01 [of pf] by simp
  have second: "date (?ds ! 1) = ascii ''2024-05-02''" if "2 \<le> travel_days request"
    using that fields [of 1] strftime_2024_05_02 [of pf] by simp
  show ?thesis
    using plan days fields step first second by (intro exI [of _ "make_fallback_plan request ?ds"]) simp
qed

theorem fallback_plan_consecutive_days_witness:
  "start_date req0 = ascii ''2024-05-01'' \<and> 1 \<le> travel_days req0 \<and> travel_days req0 \<le> 2913053
   \<and> (\<exists>plan. create_fallback_plan pf0 req0 = Inr plan
     \<and> length (days plan) = 2
     \<and> map date (days plan) = [ascii ''2024-05-01'', ascii ''2024-05-02'']
     \<and> map day_index (days plan) = [0, 1])"
proof -
  have h: "start_date req0 = ascii ''2024-05-01''" "1 \<le> travel_days req0" "travel_days req0 \<le> 2913053"
    by (simp_all add: req0_def)
  from fallback_plan_consecutive_days [OF h, of pf0] obtain plan where
    p: "create_fallback_plan pf0 req0 = Inr plan" "length (days plan) = nat (travel_days req0)"
      "\<forall>i < nat (travel_days req0). day_index (days plan ! i) = int i
         \<and> date (days plan ! i) = strftime_ymd pf0 (add_days (Date 2024 5 1) i)"
      "date (days plan ! 0) = ascii ''2024-05-01''"
      "2 \<le> travel_days req0 \<longrightarrow> date (days plan ! 1) = ascii ''2024-05-02''"
    by blast
  have n: "nat (travel_days req0) = 2" by (simp add: req0_def)
  from p(2) n obtain a b where ab: "days plan = [a, b]"
    by (auto simp: eval_nat_numeral length_Suc_conv)
  from p(3) n have "day_index (days plan ! 0) = 0" "day_index (days plan ! 1) = 1" by auto
  with p ab h show ?thesis by (simp add: req0_def)
qed

text \<open>
  With \<open>N = 2913054\<close> the loop reaches 10000-01-01 at index 2913053, the date addition
  raises \<^verbatim>\<open>OverflowError\<close>, and no plan is returned: the claim does not hold for every
  \<open>N \<ge> 1\<close>.
\<close>

theorem fallback_plan_too_many_days:
  "travel_days req_overflow = 2913054 \<and> start_date req_overflow = ascii ''2024-05-01''
   \<and> create_fallback_plan pf0 req_overflow = Inl OverflowError"
  using ymd2ord_2024_05_01
  by (simp add: create_fallback_plan_cases req_overflow_def strptime_2024_05_01 dates_in_range_def
      MAXORDINAL_def)

lemma upt_0_2: "[0..<2] = [0, Suc 0]"
  by (simp add: numeral_2_eq_2)

lemma fallback_plan_nth:
  assumes "strptime_ymd pf (start_date request) = Inr start"
    and "dates_in_range start (travel_days request)"
  shows "\<exists>plan. create_fallback_plan pf request = Inr plan
     \<and> length (days plan) = nat (travel_days request)
     \<and> (\<forall>i < nat (travel_days request).
           days plan ! i = make_day_plan pf request (add_days start i) i)"
  using assms by (simp add: create_fallback_plan_cases make_fallback_plan_def)

lemma make_day_plan_attractions:
  "attractions (make_day_plan pf request d i) = [fallback_attraction request i 0, fallback_attraction request i (Suc 0)]"
  by (simp add: make_day_plan_def upt_0_2)

lemma fallback_location_1_0:
  "fallback_location 1 0 = \<lparr> longitude = 8191625509721867 / 70368744177664, latitude = float_value (float_of_ratio 3991 100) \<rparr>"
  by (simp add: fallback_location_def float_defs)

lemma fallback_location_1_1:
  "fallback_location 1 1 = \<lparr> longitude = float_value (float_of_ratio 116415 1000), latitude = float_value (float_of_ratio 39915 1000) \<rparr>"
  by (simp add: fallback_location_def float_defs)

lemma float_116_41: "float_value (float_of_ratio 11641 100) = 4095812754860933 / 35184372088832"
  by (simp add: float_defs)

text \<open>
  Claim C4, as amended. In the fallback plan for the city \<open>U+5317 U+4EAC\<close> (Beijing), when
  the plan has a second day, the day with \<open>day_index = 1\<close> has exactly two attractions, named
  by the city followed by \<open>U+666F U+70B9\<close> and \<open>1\<close>, respectively \<open>2\<close>, each with
  \<open>visit_duration\<close> 120. Their coordinates are the binary64 results of
  \<^verbatim>\<open>116.4 + 1*0.01 + j*0.005\<close> and \<^verbatim>\<open>39.9 + 1*0.01 + j*0.005\<close>: the longitudes are
  \<open>8191625509721867 / 2 ^ 46\<close> (printed 116.41000000000001, one unit in the last place
  above the float 116.41) and the float 116.415; the latitudes are the floats 39.91 and
  39.915.
\<close>

theorem fallback_second_day_attractions:
  assumes "ymd_of (start_date request) = Some start"
    and "2 \<le> travel_days request"
    and "dates_in_range start (travel_days request)"
    and "city request = [21271, 20140]"
  shows "\<exists>plan. create_fallback_plan pf request = Inr plan
     \<and> day_index (days plan ! 1) = 1
     \<and> map attraction_name (attractions (days plan ! 1))
         = [[21271, 20140, 26223, 28857, 49], [21271, 20140, 26223, 28857, 50]]
     \<and> map (longitude \<circ> attraction_location) (attractions (days plan ! 1))
         = [8191625509721867 / 70368744177664, float_value (float_of_ratio 116415 1000)]
     \<and> map (latitude \<circ> attraction_location) (attractions (days plan ! 1))
         = [float_value (float_of_ratio 3991 100), float_value (float_of_ratio 39915 1000)]
     \<and> map visit_duration (attractions (days plan ! 1)) = [120, 120]"
proof -
  from fallback_plan_nth [OF strptime_ymd_of [OF assms(1)] assms(3), of pf] assms(2)
  obtain plan where plan: "create_fallback_plan pf request = Inr plan"
    and day: "days plan ! Suc 0 = make_day_plan pf request (add_days start (Suc 0)) (Suc 0)"
    by auto
  have idx: "day_index (days plan ! Suc 0) = 1"
    by (simp add: day make_day_plan_def)
  have atts: "attractions (days plan ! Suc 0)
      = [fallback_attraction request (Suc 0) 0, fallback_attraction request (Suc 0) (Suc 0)]"
    by (simp add: day make_day_plan_attractions)
  have names: "attraction_name (fallback_attraction request (Suc 0) 0) = [21271, 20140, 26223, 28857, 49]"
    "attraction_name (fallback_attraction request (Suc 0) (Suc 0)) = [21271, 20140, 26223, 28857, 50]"
    by (simp_all add: fallback_attraction_def assms(4) zh_attraction_def str_int_def digits.simps)
  have locs: "attraction_location (fallback_attraction request (Suc 0) 0) = fallback_location (Suc 0) 0"
    "attraction_location (fallback_attraction request (Suc 0) (Suc 0)) = fallback_location (Suc 0) (Suc 0)"
    by (simp_all add: fallback_attraction_def)
  have durs: "visit_duration (fallback_attraction request (Suc 0) 0) = 120"
    "visit_duration (fallback_attraction request (Suc 0) (Suc 0)) = 120"
    by (simp_all add: fallback_attraction_def)
  have l0: "longitude (fallback_location (Suc 0) 0) = 8191625509721867 / 70368744177664"
    "latitude (fallback_location (Suc 0) 0) = float_value (float_of_ratio 3991 100)"
    using fallback_location_1_0 by simp_all
  have l1: "longitude (fallback_location (Suc 0) (Suc 0)) = float_value (float_of_ratio 116415 1000)"
    "latitude (fallback_location (Suc 0) (Suc 0)) = float_value (float_of_ratio 39915 1000)"
    using fallback_location_1_1 by simp_all
  have c1: "map attraction_name (attractions (days plan ! Suc 0))
         = [[21271, 20140, 26223, 28857, 49], [21271, 20140, 26223, 28857, 50]]"
    unfolding atts list.map names by (rule refl)
  have c2: "map (longitude \<circ> attraction_location) (attractions (days plan ! Suc 0))
         = [8191625509721867 / 70368744177664, float_value (float_of_ratio 116415 1000)]"
    unfolding atts list.map comp_def locs l0 l1 by (rule refl)
  have c3: "map (latitude \<circ> attraction_location) (attractions (days plan ! Suc 0))
         = [float_value (float_of_ratio 3991 100), float_value (float_of_ratio 39915 1000)]"
    unfolding atts list.map comp_def locs l0 l1 by (rule refl)
  have c4: "map visit_duration (attractions (days plan ! Suc 0)) = [120, 120]"
    unfolding atts list.map durs by (rule refl)
  show ?thesis
    unfolding One_nat_def by (rule exI [of _ plan]) (intro conjI plan idx c1 c2 c3 c4)
qed

theorem fallback_second_day_attractions_witness:
  "ymd_of (start_date req0) = Some (Date 2024 5 1) \<and> 2 \<le> travel_days req0
   \<and> dates_in_range (Date 2024 5 1) (travel_days req0) \<and> city req0 = [21271, 20140]
   \<and> (\<exists>plan. create_fallback_plan pf0 req0 = Inr plan
     \<and> map attraction_name (attractions (days plan ! 1))
         = [[21271, 20140, 26223, 28857, 49], [21271, 20140, 26223, 28857, 50]]
     \<and> map visit_duration (attractions (days plan ! 1)) = [120, 120])"
proof -
  have h: "ymd_of (start_date req0) = Some (Date 2024 5 1)" "2 \<le> travel_days req0"
    "dates_in_range (Date 2024 5 1) (travel_days req0)" "city req0 = [21271, 20140]"
    using ymd2ord_2024_05_01
    by (simp_all add: req0_def ymd_of_def ascii_def valid_date_def days_in_month_def
        dates_in_range_def MAXORDINAL_def)
  from fallback_second_day_attractions [OF h, of pf0] obtain plan where
    p: "create_fallback_plan pf0 req0 = Inr plan"
    "map attraction_name (attractions (days plan ! 1))
         = [[21271, 20140, 26223, 28857, 49], [21271, 20140, 26223, 28857, 50]]"
    "map visit_duration (attractions (days plan ! 1)) = [120, 120]"
    by (elim exE conjE)
  show ?thesis
    by (intro conjI h exI [of _ plan] p)
qed

text \<open>
  The longitude of the first attraction of that day is not the float 116.41: the sum
  \<^verbatim>\<open>116.4 + 0.01\<close> is rounded up.
\<close>

theorem fallback_longitude_not_116_41:
  "\<not> isl (create_fallback_plan pf0 req0)
   \<and> longitude (attraction_location (attractions (days (projr (create_fallback_plan pf0 req0)) ! 1) ! 0))
       \<noteq> float_value (float_of_ratio 11641 100)"
proof -
  have range: "dates_in_range (Date 2024 5 1) (travel_days req0)"
    using ymd2ord_2024_05_01 by (simp add: req0_def dates_in_range_def MAXORDINAL_def)
  have start: "strptime_ymd pf0 (start_date req0) = Inr (Date 2024 5 1)"
    by (simp add: req0_def strptime_2024_05_01)
  have "Suc 0 < nat (travel_days req0)"
    by (simp add: req0_def)
  with fallback_plan_nth [OF start range]
  obtain plan where plan: "create_fallback_plan pf0 req0 = Inr plan"
    and day: "days plan ! Suc 0 = make_day_plan pf0 req0 (add_days (Date 2024 5 1) (Suc 0)) (Suc 0)"
    by auto
  have l0: "longitude (fallback_location (Suc 0) 0) = 8191625509721867 / 70368744177664"
    using fallback_location_1_0 by simp
  have "longitude (attraction_location (attractions (days plan ! Suc 0) ! 0)) = 8191625509721867 / 70368744177664"
    unfolding day make_day_plan_attractions by (simp add: fallback_attraction_def l0)
  moreover have "(8191625509721867 / 70368744177664 :: rat) \<noteq> 4095812754860933 / 35184372088832"
    by simp
  ultimately show ?thesis
    unfolding plan float_116_41 One_nat_def by simp
qed

section \<open>String search\<close>

lemma find_idx_range: "find_idx sub s k = - 1 \<or> int k \<le> find_idx sub s k"
  by (induction s arbitrary: k) (auto, force)

lemma find_idx_shift:
  "find_idx sub s k = (if find_idx sub s 0 = - 1 then - 1 else int k + find_idx sub s 0)"
proof (induction s arbitrary: k)
  case Nil
  then show ?case by simp
next
  case (Cons c cs)
  show ?case
  proof (cases "prefix sub (c # cs)")
    case True
    then show ?thesis by simp
  next
    case False
    have a: "find_idx sub cs (Suc k) = (if find_idx sub cs 0 = - 1 then - 1 else int (Suc k) + find_idx sub cs 0)"
      by (rule Cons.IH)
    have b: "find_idx sub cs (Suc 0) = (if find_idx sub cs 0 = - 1 then - 1 else int (Suc 0) + find_idx sub cs 0)"
      by (rule Cons.IH)
    from find_idx_range [of sub cs 0] have "find_idx sub cs 0 = - 1 \<or> 0 \<le> find_idx sub cs 0" by simp
    with False a b show ?thesis by auto
  qed
qed

lemma py_in_sublist: "py_in sub s = sublist sub s"
proof (induction s)
  case Nil
  then show ?case by (simp add: py_in_def py_find_def)
next
  case (Cons c cs)
  have "find_idx sub cs (Suc 0) = - 1 \<longleftrightarrow> find_idx sub cs 0 = - 1"
    using find_idx_shift [of sub cs "Suc 0"] find_idx_range [of sub cs 0] by auto
  with Cons show ?case
    by (auto simp: py_in_def py_find_def sublist_Cons_right)
qed

lemma find_idx_first:
  assumes "sub \<noteq> []" and "\<not> sublist sub (pre @ butlast sub)"
  shows "find_idx sub (pre @ sub @ post) k = int k + int (length pre)"
  using assms(2)
proof (induction pre arbitrary: k)
  case Nil
  from assms(1) obtain c cs where "sub @ post = c # cs" by (cases sub) auto
  moreover have "prefix sub (sub @ post)" by simp
  ultimately show ?case by simp
next
  case (Cons c pre)
  have "\<not> prefix sub (c # pre @ sub @ post)"
  proof
    assume p: "prefix sub (c # pre @ sub @ post)"
    have eq: "c # pre @ sub @ post = ((c # pre) @ butlast sub) @ ([last sub] @ post)"
      using assms(1) by simp
    have "prefix ((c # pre) @ butlast sub) (c # pre @ sub @ post)"
      unfolding eq by (rule prefixI) simp
    moreover have "length sub \<le> length ((c # pre) @ butlast sub)"
      using assms(1) by simp
    ultimately have "prefix sub ((c # pre) @ butlast sub)"
      using p by (rule prefix_length_prefix [rotated])
    then have "sublist sub ((c # pre) @ butlast sub)"
      by (rule prefix_imp_sublist)
    with Cons.prems show False by simp
  qed
  moreover have "\<not> sublist sub (pre @ butlast sub)"
    using Cons.prems by (auto simp: sublist_Cons_right)
  ultimately show ?case
    using Cons.IH [of "Suc k"] by simp
qed

lemma rfind_idx_absent: "c \<notin> set xs \<Longrightarrow> rfind_idx c xs k best = best"
  by (induction xs arbitrary: k best) auto

lemma rfind_idx_last:
  "c \<notin> set post \<Longrightarrow> rfind_idx c (pre @ c # post) k best = int k + int (length pre)"
  by (induction pre arbitrary: k best) (auto simp: rfind_idx_absent)

lemma sublist_single: "sublist [c] s \<longleftrightarrow> c \<in> set s"
  by (induction s) (auto simp: sublist_Cons_right)

lemma py_slice_middle:
  "py_slice (pre @ mid @ post) (int (length pre)) (int (length pre) + int (length mid)) = mid"
  by (simp add: py_slice_def clip_def Let_def)

lemma py_find_first:
  assumes "sub \<noteq> []" and "\<not> sublist sub (pre @ butlast sub)"
  shows "py_find (pre @ sub @ post) sub 0 = int (length pre)"
  using find_idx_first [OF assms, of post 0] by (simp add: py_find_def)

lemma py_find_next:
  assumes "sub \<noteq> []" and "\<not> sublist sub (body @ butlast sub)"
  shows "py_find (pre @ body @ sub @ post) sub (length pre) = int (length pre) + int (length body)"
  using find_idx_first [OF assms, of post "length pre"] by (simp add: py_find_def)

section \<open>Parsing the agent's reply\<close>

lemma fence_json_butlast: "butlast (ascii ''```json'') = ascii ''```jso''"
  by (simp add: ascii_def)

lemma fence_butlast: "butlast (ascii ''```'') = ascii ''``''"
  by (simp add: ascii_def)

lemma fence_lengths: "length (ascii ''```json'') = 7" "length (ascii ''```'') = 3"
  "ascii ''```json'' \<noteq> []" "ascii ''```'' \<noteq> []"
  by (simp_all add: ascii_def)

lemma fence_json_has_fence: "sublist (ascii ''```'') (ascii ''```json'')"
  by (rule prefix_imp_sublist) (simp add: ascii_def)

lemma no_fence_no_fence_json: "\<not> sublist (ascii ''```'') r \<Longrightarrow> \<not> sublist (ascii ''```json'') r"
  using fence_json_has_fence sublist_order.order_trans by blast

lemma extract_json_fenced_json:
  assumes "\<not> sublist (ascii ''```json'') (pre @ ascii ''```jso'')"
    and "\<not> sublist (ascii ''```'') (body @ ascii ''``'')"
  shows "extract_json (pre @ ascii ''```json'' @ body @ ascii ''```'' @ post) = Inr (py_strip body)"
proof -
  let ?r = "pre @ ascii ''```json'' @ body @ ascii ''```'' @ post"
  have "sublist (ascii ''```json'') ?r"
    by (rule sublist_appendI)
  then have inn: "py_in (ascii ''```json'') ?r"
    by (simp add: py_in_sublist)
  have start: "py_find ?r (ascii ''```json'') 0 = int (length pre)"
    using assms(1) by (intro py_find_first) (simp_all add: fence_lengths fence_json_butlast)
  have "py_find ((pre @ ascii ''```json'') @ body @ ascii ''```'' @ post) (ascii ''```'') (length (pre @ ascii ''```json''))
      = int (length (pre @ ascii ''```json'')) + int (length body)"
    using assms(2) by (intro py_find_next) (simp_all add: fence_lengths fence_butlast)
  then have stop: "py_find ?r (ascii ''```'') (length pre + 7) = int (length pre) + 7 + int (length body)"
    by (simp add: fence_lengths)
  have "py_slice ((pre @ ascii ''```json'') @ body @ (ascii ''```'' @ post)) (int (length (pre @ ascii ''```json'')))
      (int (length (pre @ ascii ''```json'')) + int (length body)) = body"
    by (rule py_slice_middle)
  then have slice: "py_slice ?r (int (length pre) + 7) (int (length pre) + 7 + int (length body)) = body"
    by (simp add: fence_lengths)
  have n: "nat (int (length pre) + 7) = length pre + 7" by simp
  show ?thesis
    unfolding extract_json_def Let_def if_P [OF inn] start n stop slice by (rule refl)
qed

lemma extract_json_fenced:
  assumes "\<not> sublist (ascii ''```json'') (pre @ ascii ''```'' @ body @ ascii ''```'' @ post)"
    and "\<not> sublist (ascii ''```'') (pre @ ascii ''``'')"
    and "\<not> sublist (ascii ''```'') (body @ ascii ''``'')"
  shows "extract_json (pre @ ascii ''```'' @ body @ ascii ''```'' @ post) = Inr (py_strip body)"
proof -
  let ?r = "pre @ ascii ''```'' @ body @ ascii ''```'' @ post"
  have nin: "\<not> py_in (ascii ''```json'') ?r"
    using assms(1) by (simp add: py_in_sublist)
  have "sublist (ascii ''```'') ?r"
    by (rule sublist_appendI)
  then have inn: "py_in (ascii ''```'') ?r"
    by (simp add: py_in_sublist)
  have start: "py_find ?r (ascii ''```'') 0 = int (length pre)"
    using assms(2) by (intro py_find_first) (simp_all add: fence_lengths fence_butlast)
  have "py_find ((pre @ ascii ''```'') @ body @ ascii ''```'' @ post) (ascii ''```'') (length (pre @ ascii ''```''))
      = int (length (pre @ ascii ''```'')) + int (length body)"
    using assms(3) by (intro py_find_next) (simp_all add: fence_lengths fence_butlast)
  then have stop: "py_find ?r (ascii ''```'') (length pre + 3) = int (length pre) + 3 + int (length body)"
    by (simp add: fence_lengths)
  have "py_slice ((pre @ ascii ''```'') @ body @ (ascii ''```'' @ post)) (int (length (pre @ ascii ''```'')))
      (int (length (pre @ ascii ''```'')) + int (length body)) = body"
    by (rule py_slice_middle)
  then have slice: "py_slice ?r (int (length pre) + 3) (int (length pre) + 3 + int (length body)) = body"
    by (simp add: fence_lengths)
  have n: "nat (int (length pre) + 3) = length pre + 3" by simp
  show ?thesis
    unfolding extract_json_def Let_def if_not_P [OF nin] if_P [OF inn] start n stop slice by (rule refl)
qed

lemma extract_json_braces:
  assumes "\<not> sublist (ascii ''```'') (pre @ [123] @ mid @ [125] @ post)"
    and "123 \<notin> set pre" and "125 \<notin> set post"
  shows "extract_json (pre @ [123] @ mid @ [125] @ post) = Inr ([123] @ mid @ [125])"
proof -
  let ?r = "pre @ [123] @ mid @ [125] @ post"
  have nin3: "\<not> py_in (ascii ''```'') ?r"
    using assms(1) by (simp add: py_in_sublist)
  have nin7: "\<not> py_in (ascii ''```json'') ?r"
    using assms(1) no_fence_no_fence_json by (simp add: py_in_sublist)
  have both: "py_in [123] ?r \<and> py_in [125] ?r"
    by (simp add: py_in_sublist sublist_single)
  have start: "py_find ?r [123] 0 = int (length pre)"
    using assms(2) by (intro py_find_first) (simp_all add: sublist_single)
  have "rfind_idx 125 ((pre @ [123] @ mid) @ 125 # post) 0 (- 1) = int 0 + int (length (pre @ [123] @ mid))"
    using assms(3) by (rule rfind_idx_last)
  then have stop: "py_rfind ?r 125 + 1 = int (length pre) + int (length ([123] @ mid @ [125]))"
    by (simp add: py_rfind_def)
  have slice: "py_slice (pre @ ([123] @ mid @ [125]) @ post) (int (length pre))
      (int (length pre) + int (length ([123] @ mid @ [125]))) = [123] @ mid @ [125]"
    by (rule py_slice_middle)
  have r: "?r = pre @ ([123] @ mid @ [125]) @ post" by simp
  show ?thesis
    unfolding extract_json_def Let_def if_not_P [OF nin3] if_not_P [OF nin7] if_P [OF both] start stop
    unfolding r slice by (rule refl)
qed

lemma extract_json_none:
  assumes "\<not> sublist (ascii ''```'') r" and "123 \<notin> set r \<or> 125 \<notin> set r"
  shows "extract_json r = Inl ValueError"
proof -
  have nin3: "\<not> py_in (ascii ''```'') r"
    using assms(1) by (simp add: py_in_sublist)
  have nin7: "\<not> py_in (ascii ''```json'') r"
    using assms(1) no_fence_no_fence_json by (simp add: py_in_sublist)
  have both: "\<not> (py_in [123] r \<and> py_in [125] r)"
    using assms(2) by (simp add: py_in_sublist sublist_single)
  show ?thesis
    unfolding extract_json_def if_not_P [OF nin3] if_not_P [OF nin7] if_not_P [OF both] by (rule refl)
qed

lemma parse_response_fallback:
  "decode_response env r = Inl e \<Longrightarrow>
   parse_response env r request = create_fallback_plan (env_platform env) request"
  by (simp add: parse_response_def)

lemma fallback_plan_succeeds:
  assumes "ymd_of (start_date request) = Some start" and "dates_in_range start (travel_days request)"
  shows "\<exists>fb. create_fallback_plan pf request = Inr fb"
  using assms(2) by (simp add: create_fallback_plan_cases strptime_ymd_of [OF assms(1)])

lemma strptime_tomorrow: "strptime_ymd pf0 (ascii ''tomorrow'') = Inl ValueError"
  by (simp add: strptime_defs ascii_def pf0_def)

lemma env0_platform: "env_platform env0 = pf0" "env_platform env_down = pf0"
  by (simp_all add: env0_def env_down_def)

lemmas find_eval = py_in_sublist [symmetric] py_in_def py_find_def ascii_def

lemma decode_no_json: "decode_response env (ascii ''no json here'') = Inl ValueError"
proof -
  have "\<not> sublist (ascii ''```'') (ascii ''no json here'')" "125 \<notin> set (ascii ''no json here'')"
    by (simp_all add: find_eval)
  then have "extract_json (ascii ''no json here'') = Inl ValueError"
    by (intro extract_json_none) simp_all
  then show ?thesis
    by (simp add: decode_response_def ebind_def)
qed

lemma extract_json_braces_reversed:
  assumes "\<not> sublist (ascii ''```'') (pre @ [125] @ mid @ [123] @ post)"
    and "123 \<notin> set pre" and "123 \<notin> set mid" and "125 \<notin> set mid" and "125 \<notin> set post"
  shows "extract_json (pre @ [125] @ mid @ [123] @ post) = Inr []"
proof -
  let ?r = "pre @ [125] @ mid @ [123] @ post"
  have nin3: "\<not> py_in (ascii ''```'') ?r"
    using assms(1) by (simp add: py_in_sublist)
  have nin7: "\<not> py_in (ascii ''```json'') ?r"
    using assms(1) no_fence_no_fence_json by (simp add: py_in_sublist)
  have both: "py_in [123] ?r \<and> py_in [125] ?r"
    by (simp add: py_in_sublist sublist_single)
  have "py_find ((pre @ [125] @ mid) @ [123] @ post) [123] 0 = int (length (pre @ [125] @ mid))"
    using assms(2,3) by (intro py_find_first) (simp_all add: sublist_single)
  then have start: "py_find ?r [123] 0 = int (length pre) + 1 + int (length mid)"
    by simp
  have "rfind_idx 125 (pre @ 125 # (mid @ [123] @ post)) 0 (- 1) = int 0 + int (length pre)"
    using assms(4,5) by (intro rfind_idx_last) simp
  then have stop: "py_rfind ?r 125 + 1 = int (length pre) + 1"
    by (simp add: py_rfind_def)
  have slice: "py_slice ?r (int (length pre) + 1 + int (length mid)) (int (length pre) + 1) = []"
    by (simp add: py_slice_def clip_def Let_def)
  show ?thesis
    unfolding extract_json_def Let_def if_not_P [OF nin3] if_not_P [OF nin7] if_P [OF both] start stop
    unfolding slice by (rule refl)
qed

text \<open>
  Claim C2, as amended. \<^verbatim>\<open>_parse_response\<close> extracts the JSON text with this
  precedence. If the reply holds the marker \<^verbatim>\<open>```json\<close> and a closing \<^verbatim>\<open>```\<close> after it, the
  text between the first marker and the next fence is taken, stripped of surrounding
  white space, whatever braces or fences stand outside. If it holds no marker
  \<^verbatim>\<open>```json\<close>, but a fence \<^verbatim>\<open>```\<close> and a second one after it, the stripped text between the
  first two fences is taken. If it holds no fence at all and both an opening and a
  closing brace, the text from the first opening brace to the last closing brace is
  taken, which is empty when the last closing brace stands before the first opening
  one. If it holds no fence at all and lacks a brace, extraction fails with
  \<^verbatim>\<open>ValueError\<close>. What is extracted when a fence is opened and never closed is left open.
  Every failure of extraction, decoding or validation is caught and answered by the
  fallback generator: the fallback plan is returned whenever \<open>start_date\<close> is a date in
  the form YYYY-MM-DD and the days of the trip end by 9999-12-31. Console output is
  left aside.
\<close>

theorem parse_response_precedence:
  "(\<not> sublist (ascii ''```json'') (pre1 @ ascii ''```jso'') \<and> \<not> sublist (ascii ''```'') (body1 @ ascii ''``'')
      \<longrightarrow> extract_json (pre1 @ ascii ''```json'' @ body1 @ ascii ''```'' @ post1) = Inr (py_strip body1))
   \<and> (\<not> sublist (ascii ''```json'') (pre2 @ ascii ''```'' @ body2 @ ascii ''```'' @ post2)
      \<and> \<not> sublist (ascii ''```'') (pre2 @ ascii ''``'') \<and> \<not> sublist (ascii ''```'') (body2 @ ascii ''``'')
      \<longrightarrow> extract_json (pre2 @ ascii ''```'' @ body2 @ ascii ''```'' @ post2) = Inr (py_strip body2))
   \<and> (\<not> sublist (ascii ''```'') (pre3 @ [123] @ mid3 @ [125] @ post3) \<and> 123 \<notin> set pre3 \<and> 125 \<notin> set post3
      \<longrightarrow> extract_json (pre3 @ [123] @ mid3 @ [125] @ post3) = Inr ([123] @ mid3 @ [125]))
   \<and> (\<not> sublist (ascii ''```'') (pre6 @ [125] @ mid6 @ [123] @ post6)
        \<and> 123 \<notin> set pre6 \<and> 123 \<notin> set mid6 \<and> 125 \<notin> set mid6 \<and> 125 \<notin> set post6
      \<longrightarrow> extract_json (pre6 @ [125] @ mid6 @ [123] @ post6) = Inr [])
   \<and> (\<not> sublist (ascii ''```'') r4 \<and> (123 \<notin> set r4 \<or> 125 \<notin> set r4)
      \<longrightarrow> extract_json r4 = Inl ValueError \<and> decode_response env r4 = Inl ValueError)
   \<and> (decode_response env r5 = Inl e \<and> ymd_of (start_date request) = Some start
        \<and> dates_in_range start (travel_days request)
      \<longrightarrow> (\<exists>fb. create_fallback_plan (env_platform env) request = Inr fb
            \<and> parse_response env r5 request = Inr fb))"
proof (intro conjI impI)
  assume "\<not> sublist (ascii ''```json'') (pre1 @ ascii ''```jso'') \<and> \<not> sublist (ascii ''```'') (body1 @ ascii ''``'')"
  then show "extract_json (pre1 @ ascii ''```json'' @ body1 @ ascii ''```'' @ post1) = Inr (py_strip body1)"
    by (intro extract_json_fenced_json) simp_all
next
  assume "\<not> sublist (ascii ''```json'') (pre2 @ ascii ''```'' @ body2 @ ascii ''```'' @ post2)
      \<and> \<not> sublist (ascii ''```'') (pre2 @ ascii ''``'') \<and> \<not> sublist (ascii ''```'') (body2 @ ascii ''``'')"
  then show "extract_json (pre2 @ ascii ''```'' @ body2 @ ascii ''```'' @ post2) = Inr (py_strip body2)"
    by (intro extract_json_fenced) simp_all
next
  assume "\<not> sublist (ascii ''```'') (pre3 @ [123] @ mid3 @ [125] @ post3) \<and> 123 \<notin> set pre3 \<and> 125 \<notin> set post3"
  then show "extract_json (pre3 @ [123] @ mid3 @ [125] @ post3) = Inr ([123] @ mid3 @ [125])"
    by (intro extract_json_braces) simp_all
next
  assume "\<not> sublist (ascii ''```'') (pre6 @ [125] @ mid6 @ [123] @ post6)
        \<and> 123 \<notin> set pre6 \<and> 123 \<notin> set mid6 \<and> 125 \<notin> set mid6 \<and> 125 \<notin> set post6"
  then show "extract_json (pre6 @ [125] @ mid6 @ [123] @ post6) = Inr []"
    by (intro extract_json_braces_reversed) simp_all
next
  assume a: "\<not> sublist (ascii ''```'') r4 \<and> (123 \<notin> set r4 \<or> 125 \<notin> set r4)"
  then show x: "extract_json r4 = Inl ValueError"
    by (intro extract_json_none) simp_all
  then show "decode_response env r4 = Inl ValueError"
    by (simp add: decode_response_def ebind_def)
next
  assume a: "decode_response env r5 = Inl e \<and> ymd_of (start_date request) = Some start
        \<and> dates_in_range start (travel_days request)"
  then obtain fb where "create_fallback_plan (env_platform env) request = Inr fb"
    using fallback_plan_succeeds by blast
  moreover from a have "parse_response env r5 request = create_fallback_plan (env_platform env) request"
    by (intro parse_response_fallback [of _ _ e]) simp
  ultimately show "\<exists>fb. create_fallback_plan (env_platform env) request = Inr fb
            \<and> parse_response env r5 request = Inr fb"
    by simp
qed


theorem parse_response_precedence_witness:
  "\<not> sublist (ascii ''```json'') (ascii ''x {a} '' @ ascii ''```jso'')
   \<and> \<not> sublist (ascii ''```'') (ascii '' {b} '' @ ascii ''``'')
   \<and> extract_json (ascii ''x {a} '' @ ascii ''```json'' @ ascii '' {b} '' @ ascii ''```'' @ ascii '' {c}'')
       = Inr (ascii ''{b}'')
   \<and> \<not> sublist (ascii ''```json'') (ascii ''x {a} '' @ ascii ''```'' @ ascii ''py {b} '' @ ascii ''```'' @ ascii '' {c}'')
   \<and> \<not> sublist (ascii ''```'') (ascii ''x {a} '' @ ascii ''``'')
   \<and> \<not> sublist (ascii ''```'') (ascii ''py {b} '' @ ascii ''``'')
   \<and> extract_json (ascii ''x {a} '' @ ascii ''```'' @ ascii ''py {b} '' @ ascii ''```'' @ ascii '' {c}'')
       = Inr (ascii ''py {b}'')
   \<and> \<not> sublist (ascii ''```'') (ascii ''x '' @ [123] @ ascii ''a} {b'' @ [125] @ ascii '' y'')
   \<and> 123 \<notin> set (ascii ''x '') \<and> 125 \<notin> set (ascii '' y'')
   \<and> extract_json (ascii ''x '' @ [123] @ ascii ''a} {b'' @ [125] @ ascii '' y'') = Inr (ascii ''{a} {b}'')
   \<and> \<not> sublist (ascii ''```'') (ascii ''x '' @ [125] @ ascii '' '' @ [123] @ ascii '' y'')
   \<and> 123 \<notin> set (ascii ''x '') \<and> 123 \<notin> set (ascii '' '') \<and> 125 \<notin> set (ascii '' '')
   \<and> 125 \<notin> set (ascii '' y'')
   \<and> extract_json (ascii ''x '' @ [125] @ ascii '' '' @ [123] @ ascii '' y'') = Inr []
   \<and> \<not> sublist (ascii ''```'') (ascii ''no json here'')
   \<and> 125 \<notin> set (ascii ''no json here'')
   \<and> extract_json (ascii ''no json here'') = Inl ValueError
   \<and> decode_response env0 (ascii ''no json here'') = Inl ValueError
   \<and> ymd_of (start_date req0) = Some (Date 2024 5 1)
   \<and> dates_in_range (Date 2024 5 1) (travel_days req0)
   \<and> (\<exists>fb. create_fallback_plan (env_platform env0) req0 = Inr fb
         \<and> parse_response env0 (ascii ''no json here'') req0 = Inr fb)"
proof -
  have h1: "\<not> sublist (ascii ''```json'') (ascii ''x {a} '' @ ascii ''```jso'')
       \<and> \<not> sublist (ascii ''```'') (ascii '' {b} '' @ ascii ''``'')"
    by (simp add: find_eval)
  have h2: "\<not> sublist (ascii ''```json'') (ascii ''x {a} '' @ ascii ''```'' @ ascii ''py {b} '' @ ascii ''```'' @ ascii '' {c}'')
       \<and> \<not> sublist (ascii ''```'') (ascii ''x {a} '' @ ascii ''``'')
       \<and> \<not> sublist (ascii ''```'') (ascii ''py {b} '' @ ascii ''``'')"
    by (simp add: find_eval)
  have h3: "\<not> sublist (ascii ''```'') (ascii ''x '' @ [123] @ ascii ''a} {b'' @ [125] @ ascii '' y'')
       \<and> 123 \<notin> set (ascii ''x '') \<and> 125 \<notin> set (ascii '' y'')"
    by (simp add: find_eval)
  have h6: "\<not> sublist (ascii ''```'') (ascii ''x '' @ [125] @ ascii '' '' @ [123] @ ascii '' y'')
       \<and> 123 \<notin> set (ascii ''x '') \<and> 123 \<notin> set (ascii '' '') \<and> 125 \<notin> set (ascii '' '')
       \<and> 125 \<notin> set (ascii '' y'')"
    by (simp add: find_eval)
  have h4: "\<not> sublist (ascii ''```'') (ascii ''no json here'')
       \<and> (123 \<notin> set (ascii ''no json here'') \<or> 125 \<notin> set (ascii ''no json here''))"
    by (simp add: find_eval)
  note inst = parse_response_precedence [of "ascii ''x {a} ''" "ascii '' {b} ''" "ascii '' {c}''"
      "ascii ''x {a} ''" "ascii ''py {b} ''" "ascii '' {c}''"
      "ascii ''x ''" "ascii ''a} {b''" "ascii '' y''"
      "ascii ''x ''" "ascii '' ''" "ascii '' y''" "ascii ''no json here''" env0
      "ascii ''no json here''" ValueError req0 "Date 2024 5 1"]
  have c1: "extract_json (ascii ''x {a} '' @ ascii ''```json'' @ ascii '' {b} '' @ ascii ''```'' @ ascii '' {c}'')
       = Inr (py_strip (ascii '' {b} ''))"
    by (rule inst [THEN conjunct1, THEN mp, OF h1])
  have c2: "extract_json (ascii ''x {a} '' @ ascii ''```'' @ ascii ''py {b} '' @ ascii ''```'' @ ascii '' {c}'')
       = Inr (py_strip (ascii ''py {b} ''))"
    by (rule inst [THEN conjunct2, THEN conjunct1, THEN mp, OF h2])
  have c3: "extract_json (ascii ''x '' @ [123] @ ascii ''a} {b'' @ [125] @ ascii '' y'')
       = Inr ([123] @ ascii ''a} {b'' @ [125])"
    by (rule inst [THEN conjunct2, THEN conjunct2, THEN conjunct1, THEN mp, OF h3])
  have c6: "extract_json (ascii ''x '' @ [125] @ ascii '' '' @ [123] @ ascii '' y'') = Inr []"
    by (rule inst [THEN conjunct2, THEN conjunct2, THEN conjunct2, THEN conjunct1, THEN mp, OF h6])
  have c4: "extract_json (ascii ''no json here'') = Inl ValueError
      \<and> decode_response env0 (ascii ''no json here'') = Inl ValueError"
    by (rule inst [THEN conjunct2, THEN conjunct2, THEN conjunct2, THEN conjunct2, THEN conjunct1,
          THEN mp, OF h4])
  have h5: "ymd_of (start_date req0) = Some (Date 2024 5 1) \<and> dates_in_range (Date 2024 5 1) (travel_days req0)"
    using ymd2ord_2024_05_01
    by (simp add: req0_def ymd_of_def ascii_def valid_date_def days_in_month_def dates_in_range_def
        MAXORDINAL_def)
  have c5: "\<exists>fb. create_fallback_plan (env_platform env0) req0 = Inr fb
         \<and> parse_response env0 (ascii ''no json here'') req0 = Inr fb"
    by (rule inst [THEN conjunct2, THEN conjunct2, THEN conjunct2, THEN conjunct2, THEN conjunct2,
          THEN mp, OF conjI [OF c4 [THEN conjunct2] h5]])
  have s1: "py_strip (ascii '' {b} '') = ascii ''{b}''" "py_strip (ascii ''py {b} '') = ascii ''py {b}''"
    "[123] @ ascii ''a} {b'' @ [125] = ascii ''{a} {b}''"
    by (simp_all add: py_strip_def py_isspace_def ascii_def)
  have h4': "\<not> sublist (ascii ''```'') (ascii ''no json here'')" "125 \<notin> set (ascii ''no json here'')"
    by (simp_all add: find_eval)
  show ?thesis
    using h1 h2 h3 h6 h4' h5 c1 c2 c3 c6 c4 c5 unfolding s1 by (elim conjE) (intro conjI; assumption)
qed

text \<open>
  Two inputs at which the claim fails as it is written. When the reply holds no JSON and
  \<open>start_date\<close> is not a date, the handler's call of the fallback generator raises, and
  \<^verbatim>\<open>_parse_response\<close> raises to its caller. And in the reply \<^verbatim>\<open>```json {a}\<close>, whose fence
  is not closed, \<^verbatim>\<open>find\<close> gives \<open>-1\<close> for the closing fence, the slice ends before the
  last character, and \<^verbatim>\<open>{a\<close> is extracted: neither the contents of the block nor the
  text from the first to the last brace.
\<close>

theorem parse_response_raises_or_truncates:
  "decode_response env0 (ascii ''no json here'') = Inl ValueError
   \<and> parse_response env0 (ascii ''no json here'') req_bad_date = Inl ValueError
   \<and> extract_json (ascii ''```json {a}'') = Inr (ascii ''{a'')"
proof -
  have d: "decode_response env0 (ascii ''no json here'') = Inl ValueError"
    by (rule decode_no_json)
  have "create_fallback_plan (env_platform env0) req_bad_date = Inl ValueError"
    by (simp add: create_fallback_plan_cases req_bad_date_def strptime_tomorrow env0_platform)
  with d have p: "parse_response env0 (ascii ''no json here'') req_bad_date = Inl ValueError"
    by (simp add: parse_response_def)
  have e: "extract_json (ascii ''```json {a}'') = Inr (ascii ''{a'')"
    by (simp add: extract_json_def py_in_def py_find_def py_slice_def clip_def py_strip_def
        py_isspace_def ascii_def)
  show ?thesis
    by (intro conjI d p e)
qed

section \<open>The trip planner\<close>

lemma plan_trip_result:
  "fst (plan_trip env request) = (case fst (plan_trip_body env request) of
      Inr trip_plan \<Rightarrow> Inr trip_plan
    | Inl e \<Rightarrow> create_fallback_plan (env_platform env) request)"
  by (cases "plan_trip_body env request") (simp add: plan_trip_def split: sum.splits)

lemma plan_trip_calls: "snd (plan_trip env request) = snd (plan_trip_body env request)"
  by (cases "plan_trip_body env request") (simp add: plan_trip_def split: sum.splits)

lemma plan_trip_body_no_tools: "get_tools env = Inl e \<Longrightarrow> plan_trip_body env request = (Inl e, [])"
  by (simp add: plan_trip_body_def)

lemma search_poi_calls:
  "dict (ascii ''maps_text_search'') = Some tool \<Longrightarrow>
   snd (search_poi env dict keywords c limit) =
     [(ascii ''maps_text_search'', [(ascii ''keywords'', Some keywords), (ascii ''city'', Some c),
        (ascii ''citylimit'', Some (if limit then ascii ''true'' else ascii ''false''))])]"
  by (simp add: search_poi_def Let_def)

lemma plan_trip_body_calls:
  "get_tools env = Inr tools \<Longrightarrow>
   snd (plan_trip_body env request) =
     snd (search_poi env (catalog_of tools) (attraction_keyword request) (city request) True)
     @ snd (get_weather env (catalog_of tools) (city request))
     @ snd (search_poi env (catalog_of tools) hotel_keyword (city request) True)"
  by (simp add: plan_trip_body_def Let_def split: prod.splits)

lemma ymd2ord_9999_12_31: "ymd2ord (Date 9999 12 31) = 3652059"
  by (simp add: ordinal_defs upt_rec [of _ "numeral _"] upt_rec [of 1])

lemma plan_trip_body_reply:
  "get_tools env = Inr tools \<Longrightarrow>
   fst (plan_trip_body env request) =
     ebind (planner_agent env request
              (fst (search_poi env (catalog_of tools) (attraction_keyword request) (city request) True))
              (fst (get_weather env (catalog_of tools) (city request)))
              (fst (search_poi env (catalog_of tools) hotel_keyword (city request) True)))
       (\<lambda>messages. if messages = [] then Inl IndexError
          else parse_response env (last messages) request)"
  by (simp add: plan_trip_body_def Let_def split: prod.splits)

lemma search_poi_tool_fails:
  assumes "dict (ascii ''maps_text_search'') = Some tool"
    and "tool [(ascii ''keywords'', Some keywords), (ascii ''city'', Some c),
               (ascii ''citylimit'', Some (if limit then ascii ''true'' else ascii ''false''))] = Inl e"
  shows "fst (search_poi env dict keywords c limit) = JArr []"
  using assms by (simp add: search_poi_def Let_def ebind_def)

lemma get_weather_tool_fails:
  assumes "dict (ascii ''maps_weather'') = Some tool"
    and "tool [(ascii ''city'', Some c)] = Inl e"
  shows "fst (get_weather env dict c) = JArr []"
  using assms by (simp add: get_weather_def Let_def ebind_def)

lemma plan_trip_after_reply:
  assumes fb: "create_fallback_plan (env_platform env) request = Inr fb"
    and tools: "get_tools env = Inr tools"
    and reply: "planner_agent env request
        (fst (search_poi env (catalog_of tools) (attraction_keyword request) (city request) True))
        (fst (get_weather env (catalog_of tools) (city request)))
        (fst (search_poi env (catalog_of tools) hotel_keyword (city request) True)) = reply"
  shows "fst (plan_trip env request) =
     (case reply of
        Inl e \<Rightarrow> Inr fb
      | Inr messages \<Rightarrow>
          if messages = [] then Inr fb
          else (case decode_response env (last messages) of
                  Inl e \<Rightarrow> Inr fb
                | Inr trip_plan \<Rightarrow> Inr trip_plan))"
  unfolding plan_trip_result plan_trip_body_reply [OF tools] reply
  by (simp add: ebind_def parse_response_def fb split: sum.splits)

text \<open>
  Claim C1, as amended. For every request whose \<open>start_date\<close> is a date in the form
  YYYY-MM-DD and whose days end by 9999-12-31, \<^verbatim>\<open>plan_trip\<close> returns a plan and raises
  nothing. It returns the fallback plan when the discovery of the tools fails, when the
  agent raises, when the agent's reply holds no message, and when the last message of
  the reply cannot be extracted, decoded or validated, which \<^verbatim>\<open>_parse_response\<close> catches
  itself; when the last message yields a plan, that plan is returned. A failing call of
  a mapping tool is not among these cases: \<^verbatim>\<open>search_poi\<close> and \<^verbatim>\<open>get_weather\<close> answer it
  with an empty list, which is handed to the agent like every other search result.
  Console output is left aside.
\<close>

theorem plan_trip_returns_plan:
  assumes "ymd_of (start_date request) = Some start"
    and "dates_in_range start (travel_days request)"
  shows "\<exists>fb. create_fallback_plan (env_platform env) request = Inr fb
     \<and> (\<exists>trip_plan. fst (plan_trip env request) = Inr trip_plan)
     \<and> (\<forall>e. get_tools env = Inl e \<longrightarrow> fst (plan_trip env request) = Inr fb)
     \<and> (\<forall>tools reply.
          get_tools env = Inr tools
          \<and> planner_agent env request
               (fst (search_poi env (catalog_of tools) (attraction_keyword request) (city request) True))
               (fst (get_weather env (catalog_of tools) (city request)))
               (fst (search_poi env (catalog_of tools) hotel_keyword (city request) True)) = reply
          \<longrightarrow> (\<forall>e. reply = Inl e \<longrightarrow> fst (plan_trip env request) = Inr fb)
            \<and> (reply = Inr [] \<longrightarrow> fst (plan_trip env request) = Inr fb)
            \<and> (\<forall>messages e. reply = Inr messages \<and> messages \<noteq> []
                  \<and> decode_response env (last messages) = Inl e
                 \<longrightarrow> fst (plan_trip env request) = Inr fb)
            \<and> (\<forall>messages trip_plan. reply = Inr messages \<and> messages \<noteq> []
                  \<and> decode_response env (last messages) = Inr trip_plan
                 \<longrightarrow> fst (plan_trip env request) = Inr trip_plan))
     \<and> (\<forall>response e. decode_response env response = Inl e \<longrightarrow>
           parse_response env response request = Inr fb)
     \<and> (\<forall>dict tool keywords e.
           dict (ascii ''maps_text_search'') = Some tool
           \<and> tool [(ascii ''keywords'', Some keywords), (ascii ''city'', Some (city request)),
                    (ascii ''citylimit'', Some (ascii ''true''))] = Inl e
          \<longrightarrow> fst (search_poi env dict keywords (city request) True) = JArr [])
     \<and> (\<forall>dict tool e.
           dict (ascii ''maps_weather'') = Some tool
           \<and> tool [(ascii ''city'', Some (city request))] = Inl e
          \<longrightarrow> fst (get_weather env dict (city request)) = JArr [])"
proof -
  from fallback_plan_succeeds [OF assms] obtain fb
    where fb: "create_fallback_plan (env_platform env) request = Inr fb" by blast
  have a: "\<exists>trip_plan. fst (plan_trip env request) = Inr trip_plan"
    by (simp add: plan_trip_result fb split: sum.splits)
  have c: "fst (plan_trip env request) = Inr fb" if "get_tools env = Inl e" for e
    using plan_trip_body_no_tools [OF that] by (simp add: plan_trip_result fb)
  have r: "(\<forall>e. reply = Inl e \<longrightarrow> fst (plan_trip env request) = Inr fb)
            \<and> (reply = Inr [] \<longrightarrow> fst (plan_trip env request) = Inr fb)
            \<and> (\<forall>messages e. reply = Inr messages \<and> messages \<noteq> []
                  \<and> decode_response env (last messages) = Inl e
                 \<longrightarrow> fst (plan_trip env request) = Inr fb)
            \<and> (\<forall>messages trip_plan. reply = Inr messages \<and> messages \<noteq> []
                  \<and> decode_response env (last messages) = Inr trip_plan
                 \<longrightarrow> fst (plan_trip env request) = Inr trip_plan)"
    if "get_tools env = Inr tools
          \<and> planner_agent env request
               (fst (search_poi env (catalog_of tools) (attraction_keyword request) (city request) True))
               (fst (get_weather env (catalog_of tools) (city request)))
               (fst (search_poi env (catalog_of tools) hotel_keyword (city request) True)) = reply"
    for tools reply
    unfolding plan_trip_after_reply [OF fb that [THEN conjunct1] that [THEN conjunct2]]
    by simp
  have d: "parse_response env response request = Inr fb" if "decode_response env response = Inl e"
    for response e
    using parse_response_fallback [OF that] fb by simp
  have s: "fst (search_poi env dict kw (city request) True) = JArr []"
    if "dict (ascii ''maps_text_search'') = Some tool
           \<and> tool [(ascii ''keywords'', Some kw), (ascii ''city'', Some (city request)),
                    (ascii ''citylimit'', Some (ascii ''true''))] = Inl e"
    for dict tool kw e
    using that search_poi_tool_fails [of dict tool kw "city request" True e env] by simp
  have w: "fst (get_weather env dict (city request)) = JArr []"
    if "dict (ascii ''maps_weather'') = Some tool
           \<and> tool [(ascii ''city'', Some (city request))] = Inl e"
    for dict tool e
    using that get_weather_tool_fails [of dict tool "city request" e env] by simp
  have c': "\<forall>e. get_tools env = Inl e \<longrightarrow> fst (plan_trip env request) = Inr fb"
    by (intro allI impI) (erule c)
  show ?thesis
    apply (rule exI [of _ fb])
    apply (rule conjI [OF fb])
    apply (rule conjI [OF a])
    apply (rule conjI [OF c'])
    apply (rule conjI)
     apply (intro allI impI)
     apply (erule r)
    apply (rule conjI)
     apply (intro allI impI)
     apply (erule d)
    apply (rule conjI)
     apply (intro allI impI)
     apply (erule s)
    apply (intro allI impI)
    apply (erule w)
    done
qed


lemma env_agent_fields:
  "get_tools env_agent = Inr tools_unreachable"
  "env_platform env_agent = pf0"
  "json_loads env_agent = loads0"
  "validate_trip_plan env_agent = (\<lambda>data. Inr agent_plan)"
  "planner_agent env_agent = (\<lambda>request attractions weather hotels.
       if attractions = JArr [] \<and> weather = JArr [] \<and> hotels = JArr []
       then Inr [ascii ''{}''] else Inl RemoteError)"
  by (simp_all add: env_agent_def env0_def)

lemma catalog_unreachable:
  "catalog_of tools_unreachable (ascii ''maps_text_search'') = Some unreachable"
  "catalog_of tools_unreachable (ascii ''maps_weather'') = Some unreachable"
  by (simp_all add: catalog_of_def tools_unreachable_def ascii_def)

lemma unreachable_fails: "unreachable arguments = Inl RemoteError"
  by (simp add: unreachable_def)

lemma search_poi_unreachable:
  "fst (search_poi env (catalog_of tools_unreachable) keywords c limit) = JArr []"
  by (rule search_poi_tool_fails [of "catalog_of tools_unreachable" unreachable,
        OF catalog_unreachable(1) unreachable_fails])

lemma get_weather_unreachable:
  "fst (get_weather env (catalog_of tools_unreachable) c) = JArr []"
  by (rule get_weather_tool_fails [of "catalog_of tools_unreachable" unreachable,
        OF catalog_unreachable(2) unreachable_fails])

lemma reply_env_agent:
  "planner_agent env_agent req0
     (fst (search_poi env_agent (catalog_of tools_unreachable) (attraction_keyword req0) (city req0) True))
     (fst (get_weather env_agent (catalog_of tools_unreachable) (city req0)))
     (fst (search_poi env_agent (catalog_of tools_unreachable) hotel_keyword (city req0) True))
   = Inr [ascii ''{}'']"
  unfolding search_poi_unreachable get_weather_unreachable env_agent_fields by simp

lemma extract_json_empty_object: "extract_json (ascii ''{}'') = Inr (ascii ''{}'')"
proof -
  have "\<not> sublist (ascii ''```'') ([] @ [123] @ [] @ [125] @ [])"
    by (simp add: find_eval)
  from extract_json_braces [OF this] show ?thesis
    by (simp add: ascii_def)
qed

lemma decode_env_agent: "decode_response env_agent (last [ascii ''{}'']) = Inr agent_plan"
  by (simp add: decode_response_def extract_json_empty_object ebind_def env_agent_fields loads0_def)

lemma req0_dates:
  "ymd_of (start_date req0) = Some (Date 2024 5 1)"
  "dates_in_range (Date 2024 5 1) (travel_days req0)"
  using ymd2ord_2024_05_01
  by (simp_all add: req0_def ymd_of_def ascii_def valid_date_def days_in_month_def dates_in_range_def
      MAXORDINAL_def)

lemma fallback_req0_days:
  assumes "create_fallback_plan pf req0 = Inr fb"
  shows "length (days fb) = 2"
proof -
  have s: "strptime_ymd pf (start_date req0) = Inr (Date 2024 5 1)"
    by (rule strptime_ymd_of [OF req0_dates(1)])
  have t: "nat (travel_days req0) = 2"
    by (simp add: req0_def)
  from assms have "Inr (make_fallback_plan req0
      (map (\<lambda>i. make_day_plan pf req0 (add_days (Date 2024 5 1) i) i) [0..<nat (travel_days req0)]))
      = (Inr fb :: error + TripPlan)"
    unfolding create_fallback_plan_cases s sum.case if_P [OF req0_dates(2)] .
  then have "fb = make_fallback_plan req0
      (map (\<lambda>i. make_day_plan pf req0 (add_days (Date 2024 5 1) i) i) [0..<nat (travel_days req0)])"
    by (simp only: sum.inject)
  then show ?thesis
    unfolding t by (simp add: make_fallback_plan_def)
qed

lemma fallback_req0_not_agent_plan: "create_fallback_plan pf req0 \<noteq> Inr agent_plan"
proof
  assume "create_fallback_plan pf req0 = Inr agent_plan"
  from fallback_req0_days [OF this] show False
    by (simp add: agent_plan_def)
qed

lemma plan_trip_env_agent: "fst (plan_trip env_agent req0) = Inr agent_plan"
proof -
  obtain fb where fb: "create_fallback_plan (env_platform env_agent) req0 = Inr fb"
    using fallback_plan_succeeds [OF req0_dates] by blast
  show ?thesis
    unfolding plan_trip_after_reply [OF fb env_agent_fields(1) reply_env_agent]
    using decode_env_agent by simp
qed


lemma env0_tools: "get_tools env0 = Inr tools0"
  by (simp add: env0_def)

lemma reply_env0:
  "planner_agent env0 req0
               (fst (search_poi env0 (catalog_of tools0) (attraction_keyword req0) (city req0) True))
               (fst (get_weather env0 (catalog_of tools0) (city req0)))
               (fst (search_poi env0 (catalog_of tools0) hotel_keyword (city req0) True))
   = Inr [ascii ''no json here'']"
  by (simp add: env0_def)

theorem plan_trip_returns_plan_witness:
  "ymd_of (start_date req0) = Some (Date 2024 5 1) \<and> dates_in_range (Date 2024 5 1) (travel_days req0)
   \<and> get_tools env_down = Inl RemoteError
   \<and> (\<exists>fb. create_fallback_plan (env_platform env_down) req0 = Inr fb
         \<and> fst (plan_trip env_down req0) = Inr fb)
   \<and> get_tools env0 = Inr tools0
   \<and> planner_agent env0 req0
               (fst (search_poi env0 (catalog_of tools0) (attraction_keyword req0) (city req0) True))
               (fst (get_weather env0 (catalog_of tools0) (city req0)))
               (fst (search_poi env0 (catalog_of tools0) hotel_keyword (city req0) True)) = Inr [ascii ''no json here'']
   \<and> decode_response env0 (last [ascii ''no json here'']) = Inl ValueError
   \<and> (\<exists>fb. create_fallback_plan (env_platform env0) req0 = Inr fb
         \<and> fst (plan_trip env0 req0) = Inr fb)
   \<and> get_tools env_agent = Inr tools_unreachable
   \<and> catalog_of tools_unreachable (ascii ''maps_text_search'') = Some unreachable
   \<and> unreachable [(ascii ''keywords'', Some (attraction_keyword req0)), (ascii ''city'', Some (city req0)),
                    (ascii ''citylimit'', Some (ascii ''true''))] = Inl RemoteError
   \<and> fst (search_poi env_agent (catalog_of tools_unreachable) (attraction_keyword req0) (city req0) True)
       = JArr []
   \<and> planner_agent env_agent req0
               (fst (search_poi env_agent (catalog_of tools_unreachable) (attraction_keyword req0) (city req0) True))
               (fst (get_weather env_agent (catalog_of tools_unreachable) (city req0)))
               (fst (search_poi env_agent (catalog_of tools_unreachable) hotel_keyword (city req0) True)) = Inr [ascii ''{}'']
   \<and> decode_response env_agent (last [ascii ''{}'']) = Inr agent_plan
   \<and> fst (plan_trip env_agent req0) = Inr agent_plan"
proof -
  have g: "get_tools env_down = Inl RemoteError"
    by (simp add: env_down_def)
  have d0: "decode_response env0 (last [ascii ''no json here'']) = Inl ValueError"
    by (simp add: decode_no_json)
  have ne: "[ascii ''no json here''] \<noteq> []" "[ascii ''{}''] \<noteq> []"
    by simp_all
  have w1: "\<exists>fb. create_fallback_plan (env_platform env_down) req0 = Inr fb
         \<and> fst (plan_trip env_down req0) = Inr fb"
    using plan_trip_returns_plan [OF req0_dates, of env_down]
  proof (elim exE conjE)
    fix fb
    assume f: "create_fallback_plan (env_platform env_down) req0 = Inr fb"
      and c: "\<forall>e. get_tools env_down = Inl e \<longrightarrow> fst (plan_trip env_down req0) = Inr fb"
    from c [THEN spec, THEN mp, OF g] f
    show ?thesis by (intro exI [of _ fb] conjI)
  qed
  have w2: "\<exists>fb. create_fallback_plan (env_platform env0) req0 = Inr fb
         \<and> fst (plan_trip env0 req0) = Inr fb"
    using plan_trip_returns_plan [OF req0_dates, of env0]
  proof (elim exE conjE)
    fix fb
    assume f: "create_fallback_plan (env_platform env0) req0 = Inr fb"
      and r: "\<forall>tools reply.
          get_tools env0 = Inr tools
          \<and> planner_agent env0 req0
               (fst (search_poi env0 (catalog_of tools) (attraction_keyword req0) (city req0) True))
               (fst (get_weather env0 (catalog_of tools) (city req0)))
               (fst (search_poi env0 (catalog_of tools) hotel_keyword (city req0) True)) = reply
          \<longrightarrow> (\<forall>e. reply = Inl e \<longrightarrow> fst (plan_trip env0 req0) = Inr fb)
            \<and> (reply = Inr [] \<longrightarrow> fst (plan_trip env0 req0) = Inr fb)
            \<and> (\<forall>messages e. reply = Inr messages \<and> messages \<noteq> []
                  \<and> decode_response env0 (last messages) = Inl e
                 \<longrightarrow> fst (plan_trip env0 req0) = Inr fb)
            \<and> (\<forall>messages trip_plan. reply = Inr messages \<and> messages \<noteq> []
                  \<and> decode_response env0 (last messages) = Inr trip_plan
                 \<longrightarrow> fst (plan_trip env0 req0) = Inr trip_plan)"
    note r1 = r [THEN spec [of _ tools0], THEN spec [of _ "Inr [ascii ''no json here'']"], THEN mp,
        OF conjI [OF env0_tools reply_env0]]
    note r2 = r1 [THEN conjunct2, THEN conjunct2, THEN conjunct1,
        THEN spec [of _ "[ascii ''no json here'']"], THEN spec [of _ ValueError], THEN mp,
        OF conjI [OF refl conjI [OF ne(1) d0]]]
    from r2 f show ?thesis by (intro exI [of _ fb] conjI)
  qed
  have s: "fst (search_poi env_agent (catalog_of tools_unreachable) (attraction_keyword req0) (city req0) True)
       = JArr []"
    using plan_trip_returns_plan [OF req0_dates, of env_agent]
  proof (elim exE conjE)
    fix fb
    assume p: "\<forall>dict tool keywords e.
           dict (ascii ''maps_text_search'') = Some tool
           \<and> tool [(ascii ''keywords'', Some keywords), (ascii ''city'', Some (city req0)),
                    (ascii ''citylimit'', Some (ascii ''true''))] = Inl e
          \<longrightarrow> fst (search_poi env_agent dict keywords (city req0) True) = JArr []"
    show ?thesis
      by (rule p [THEN spec [of _ "catalog_of tools_unreachable"], THEN spec [of _ unreachable],
          THEN spec [of _ "attraction_keyword req0"], THEN spec [of _ RemoteError], THEN mp,
          OF conjI [OF catalog_unreachable(1) unreachable_fails]])
  qed
  have w3: "fst (plan_trip env_agent req0) = Inr agent_plan"
    using plan_trip_returns_plan [OF req0_dates, of env_agent]
  proof (elim exE conjE)
    fix fb
    assume r: "\<forall>tools reply.
          get_tools env_agent = Inr tools
          \<and> planner_agent env_agent req0
               (fst (search_poi env_agent (catalog_of tools) (attraction_keyword req0) (city req0) True))
               (fst (get_weather env_agent (catalog_of tools) (city req0)))
               (fst (search_poi env_agent (catalog_of tools) hotel_keyword (city req0) True)) = reply
          \<longrightarrow> (\<forall>e. reply = Inl e \<longrightarrow> fst (plan_trip env_agent req0) = Inr fb)
            \<and> (reply = Inr [] \<longrightarrow> fst (plan_trip env_agent req0) = Inr fb)
            \<and> (\<forall>messages e. reply = Inr messages \<and> messages \<noteq> []
                  \<and> decode_response env_agent (last messages) = Inl e
                 \<longrightarrow> fst (plan_trip env_agent req0) = Inr fb)
            \<and> (\<forall>messages trip_plan. reply = Inr messages \<and> messages \<noteq> []
                  \<and> decode_response env_agent (last messages) = Inr trip_plan
                 \<longrightarrow> fst (plan_trip env_agent req0) = Inr trip_plan)"
    note r1 = r [THEN spec [of _ tools_unreachable], THEN spec [of _ "Inr [ascii ''{}'']"], THEN mp,
        OF conjI [OF env_agent_fields(1) reply_env_agent]]
    show ?thesis
      by (rule r1 [THEN conjunct2, THEN conjunct2, THEN conjunct2,
        THEN spec [of _ "[ascii ''{}'']"], THEN spec [of _ agent_plan], THEN mp,
        OF conjI [OF refl conjI [OF ne(2) decode_env_agent]]])
  qed
  show ?thesis
    by (intro conjI req0_dates g w1 env0_tools reply_env0 d0 w2 env_agent_fields(1)
        catalog_unreachable(1) unreachable_fails s reply_env_agent decode_env_agent w3)
qed

text \<open>
  Two requests with a well-formed \<open>start_date\<close> at which the claim fails as it is written.
  A request for two days from 9999-12-31: its second day does not exist for
  \<^verbatim>\<open>datetime\<close>, so when the tools cannot be discovered the handler's fallback generator
  raises \<^verbatim>\<open>OverflowError\<close>, which leaves \<^verbatim>\<open>plan_trip\<close>. And a request for two days from
  2024-05-01 when every call of the text search and of the weather tool fails: the
  mapping service answers each failure with an empty list, the agent is asked, and its
  plan is returned, which is not the fallback plan.
\<close>

theorem plan_trip_raises_or_keeps_agent_plan:
  "ymd_of (start_date req_last_day) = Some (Date 9999 12 31)
   \<and> get_tools env_down = Inl RemoteError
   \<and> fst (plan_trip env_down req_last_day) = Inl OverflowError
   \<and> ymd_of (start_date req0) = Some (Date 2024 5 1)
   \<and> catalog_of tools_unreachable (ascii ''maps_text_search'') = Some unreachable
   \<and> catalog_of tools_unreachable (ascii ''maps_weather'') = Some unreachable
   \<and> unreachable [(ascii ''keywords'', Some (attraction_keyword req0)), (ascii ''city'', Some (city req0)),
                    (ascii ''citylimit'', Some (ascii ''true''))] = Inl RemoteError
   \<and> unreachable [(ascii ''city'', Some (city req0))] = Inl RemoteError
   \<and> fst (plan_trip env_agent req0) = Inr agent_plan
   \<and> create_fallback_plan (env_platform env_agent) req0 \<noteq> Inr agent_plan"
proof -
  have y: "ymd_of (start_date req_last_day) = Some (Date 9999 12 31)"
    by (simp add: req_last_day_def ymd_of_def ascii_def valid_date_def days_in_month_def is_leap_def)
  have "\<not> dates_in_range (Date 9999 12 31) (travel_days req_last_day)"
    using ymd2ord_9999_12_31 by (simp add: req_last_day_def dates_in_range_def MAXORDINAL_def)
  then have "create_fallback_plan pf0 req_last_day = Inl OverflowError"
    by (simp add: create_fallback_plan_cases strptime_ymd_of [OF y])
  moreover have g: "get_tools env_down = Inl RemoteError"
    by (simp add: env_down_def)
  moreover have "plan_trip_body env_down req_last_day = (Inl RemoteError, [])"
    by (rule plan_trip_body_no_tools) (rule g)
  ultimately have o: "fst (plan_trip env_down req_last_day) = Inl OverflowError"
    by (simp add: plan_trip_result env0_platform)
  show ?thesis
    by (intro conjI y g o req0_dates(1) catalog_unreachable unreachable_fails plan_trip_env_agent
        fallback_req0_not_agent_plan)
qed

text \<open>
  Claim C10. When \<^verbatim>\<open>strptime\<close> rejects \<open>start_date\<close>, the fallback generator raises
  \<^verbatim>\<open>ValueError\<close>; the handler of \<^verbatim>\<open>plan_trip\<close> calls it outside any \<^verbatim>\<open>try\<close>, so whenever
  the \<^verbatim>\<open>try\<close> block fails, for instance because the tools cannot be reached, the
  \<^verbatim>\<open>ValueError\<close> leaves \<^verbatim>\<open>plan_trip\<close>.
\<close>

theorem plan_trip_raises_on_bad_date:
  assumes "strptime_ymd (env_platform env) (start_date request) = Inl e"
  shows "create_fallback_plan (env_platform env) request = Inl ValueError
     \<and> (\<forall>e'. fst (plan_trip_body env request) = Inl e' \<longrightarrow> fst (plan_trip env request) = Inl ValueError)
     \<and> (\<forall>e'. get_tools env = Inl e' \<longrightarrow> fst (plan_trip env request) = Inl ValueError)"
proof -
  have fb: "create_fallback_plan (env_platform env) request = Inl ValueError"
    using assms by (simp add: create_fallback_plan_cases)
  have b: "fst (plan_trip env request) = Inl ValueError" if "fst (plan_trip_body env request) = Inl e'" for e'
    using that by (simp add: plan_trip_result fb)
  have c: "fst (plan_trip env request) = Inl ValueError" if "get_tools env = Inl e'" for e'
    using b [of e'] plan_trip_body_no_tools [OF that] by simp
  from fb b c show ?thesis by blast
qed

theorem plan_trip_raises_on_bad_date_witness:
  "strptime_ymd (env_platform env_down) (start_date req_bad_date) = Inl ValueError
   \<and> get_tools env_down = Inl RemoteError
   \<and> create_fallback_plan (env_platform env_down) req_bad_date = Inl ValueError
   \<and> fst (plan_trip env_down req_bad_date) = Inl ValueError"
proof -
  have h: "strptime_ymd (env_platform env_down) (start_date req_bad_date) = Inl ValueError"
    by (simp add: env0_platform req_bad_date_def strptime_tomorrow)
  have g: "get_tools env_down = Inl RemoteError"
    by (simp add: env_down_def)
  from plan_trip_raises_on_bad_date [OF h] g h show ?thesis by blast
qed

lemma plan_trip_hotel_call:
  assumes "get_tools env = Inr tools"
    and "catalog_of tools (ascii ''maps_text_search'') = Some tool"
  shows "snd (plan_trip env request) =
     (snd (search_poi env (catalog_of tools) (attraction_keyword request) (city request) True)
      @ snd (get_weather env (catalog_of tools) (city request)))
     @ [(ascii ''maps_text_search'',
       [(ascii ''keywords'', Some hotel_keyword),
        (ascii ''city'', Some (city request)),
        (ascii ''citylimit'', Some (ascii ''true''))])]"
  unfolding plan_trip_calls plan_trip_body_calls [OF assms(1)]
  unfolding search_poi_calls [of "catalog_of tools", OF assms(2)]
  by simp

lemma catalog0_text_search: "catalog_of tools0 (ascii ''maps_text_search'') = Some (answer (ascii ''{}''))"
  by (simp add: catalog_of_def tools0_def ascii_def)

text \<open>
  Claim C6. When the tools have been discovered and the text search is among them, the
  last tool call of \<^verbatim>\<open>plan_trip\<close> is the hotel search: the text search with the keyword
  \<^verbatim>\<open>{request.accommodation}\<close> followed by \<open>U+9152 U+5E97\<close>, character by character and
  whatever the request's accommodation is, for the request's city.
\<close>

theorem plan_trip_hotel_keyword:
  assumes "get_tools env = Inr tools"
    and "catalog_of tools (ascii ''maps_text_search'') = Some tool"
  shows "\<exists>earlier. snd (plan_trip env request) = earlier @
     [(ascii ''maps_text_search'',
       [(ascii ''keywords'', Some (ascii ''{request.accommodation}'' @ [37202, 24215])),
        (ascii ''city'', Some (city request)),
        (ascii ''citylimit'', Some (ascii ''true''))])]"
proof -
  have call: "snd (plan_trip env request) =
     (snd (search_poi env (catalog_of tools) (attraction_keyword request) (city request) True)
      @ snd (get_weather env (catalog_of tools) (city request)))
     @ [(ascii ''maps_text_search'',
       [(ascii ''keywords'', Some (ascii ''{request.accommodation}'' @ [37202, 24215])),
        (ascii ''city'', Some (city request)),
        (ascii ''citylimit'', Some (ascii ''true''))])]"
    using plan_trip_hotel_call [OF assms] unfolding hotel_keyword_def .
  show ?thesis
    by (rule exI [of _ "snd (search_poi env (catalog_of tools) (attraction_keyword request) (city request) True)
      @ snd (get_weather env (catalog_of tools) (city request))"]) (rule call)
qed

theorem plan_trip_hotel_keyword_witness:
  "get_tools env0 = Inr tools0
   \<and> catalog_of tools0 (ascii ''maps_text_search'') = Some (answer (ascii ''{}''))
   \<and> (\<exists>earlier. snd (plan_trip env0 req0) = earlier @
     [(ascii ''maps_text_search'',
       [(ascii ''keywords'', Some (ascii ''{request.accommodation}'' @ [37202, 24215])),
        (ascii ''city'', Some (city req0)),
        (ascii ''citylimit'', Some (ascii ''true''))])])"
proof -
  have g: "get_tools env0 = Inr tools0"
    by (simp add: env0_def)
  show ?thesis
    by (intro conjI g catalog0_text_search plan_trip_hotel_keyword [OF g catalog0_text_search])
qed

section \<open>The mapping service\<close>

lemma get_weather_no_tool:
  "dict (ascii ''maps_weather'') = None \<Longrightarrow> get_weather env dict c = (JArr [], [])"
  by (simp add: get_weather_def)

lemma get_weather_decode_fails:
  assumes "dict (ascii ''maps_weather'') = Some tool"
    and "ebind (tool [(ascii ''city'', Some c)]) (decode_first env) = Inl e"
  shows "fst (get_weather env dict c) = JArr []"
  using assms by (auto simp: get_weather_def Let_def ebind_def split: sum.splits)

lemma get_weather_no_forecasts:
  assumes "dict (ascii ''maps_weather'') = Some tool"
    and "ebind (tool [(ascii ''city'', Some c)]) (decode_first env) = Inr (JObj entries)"
    and "map_of entries (ascii ''forecasts'') = None"
  shows "fst (get_weather env dict c) = JNull"
  using assms by (auto simp: get_weather_def Let_def ebind_def json_get_def split: sum.splits)

lemma catalog0:
  "catalog_of tools0 (ascii ''maps_geo'') = Some (answer (ascii ''geo''))"
  "catalog_of tools0 (ascii ''maps_weather'') = Some (answer (ascii ''{}''))"
  "catalog_of tools0 (ascii ''maps_direction_walking'') = Some (answer (ascii ''route''))"
  "catalog_of tools0 (ascii ''maps_direction_driving'') = Some (answer (ascii ''route''))"
  "catalog_of tools0 (ascii ''maps_direction_transit_integrated'') = Some (answer (ascii ''route''))"
  by (simp_all add: catalog_of_def tools0_def ascii_def)

lemma env0_fields: "json_loads env0 = loads0" "float_of_str env0 = float_of_str0"
  "str_of_float env0 = str_of_float0"
  by (simp_all add: env0_def)

text \<open>
  Claim C5. The weather operation returns an empty list when the tool is missing
  (\<open>get_weather_no_tool\<close>) and when the call of the tool or the decoding of its payload
  raises (\<open>get_weather_decode_fails\<close>). When the decoded payload is an object without the entry
  \<^verbatim>\<open>forecasts\<close>, however, \<^verbatim>\<open>weather_json.get('forecasts')\<close> is \<^verbatim>\<open>None\<close> and this is what
  is returned: with a weather tool that answers \<^verbatim>\<open>{}\<close>, the result for Beijing is \<^verbatim>\<open>None\<close>,
  not the empty list.
\<close>

theorem get_weather_returns_none:
  "fst (get_weather env0 (catalog_of tools0) (ascii ''Beijing'')) = JNull"
proof -
  have "ebind (answer (ascii ''{}'') [(ascii ''city'', Some (ascii ''Beijing''))]) (decode_first env0)
      = Inr (JObj [])"
    by (simp add: answer_def ebind_def decode_first_def env0_fields loads0_def)
  then show ?thesis
    by (rule get_weather_no_forecasts [of "catalog_of tools0", OF catalog0(2)]) simp
qed

lemma sync_get_weather_eq: "sync_get_weather = get_weather"
  by (intro ext) (simp add: sync_get_weather_def get_weather_def)

lemma sync_search_poi_eq: "sync_search_poi = search_poi"
  by (intro ext) (simp add: sync_search_poi_def search_poi_def)

lemma sync_geocode_eq: "sync_geocode = geocode"
  by (intro ext) (simp add: sync_geocode_def geocode_def)

lemma sync_get_poi_detail_eq: "sync_get_poi_detail = get_poi_detail"
  by (intro ext) (simp add: sync_get_poi_detail_def get_poi_detail_def)

lemma location_str_first: "location_str env (Some (l # ls)) = Inr (coordinates env l)"
  by (simp add: location_str_def coordinates_def)

lemma plan_route_calls:
  assumes "geocode env dict origin_address (Some origin_city) = (Some (l1 # ls1), t1)"
    and "geocode env dict destination_address (Some destination_city) = (Some (l2 # ls2), t2)"
    and "dict (route_tool_name route_type) = Some tool"
  shows "snd (plan_route env dict origin_address origin_city destination_address destination_city route_type)
       = t1 @ t2 @ [(route_tool_name route_type,
           route_arguments route_type (coordinates env l1) (Some origin_city)
             (coordinates env l2) (Some destination_city))]"
  using assms by (simp add: plan_route_def Let_def location_str_first)

lemma sync_plan_route_calls:
  assumes "sync_geocode env dict origin_address origin_city = (Some (l1 # ls1), t1)"
    and "sync_geocode env dict destination_address destination_city = (Some (l2 # ls2), t2)"
    and "dict (route_tool_name route_type) = Some tool"
  shows "snd (sync_plan_route env dict origin_address destination_address origin_city destination_city route_type)
       = t1 @ t2 @ [(route_tool_name route_type,
           route_arguments route_type (coordinates env l1) origin_city
             (coordinates env l2) destination_city)]"
  using assms by (simp add: sync_plan_route_def play_route_async_def Let_def location_str_first)

lemma sync_plan_route_resolved:
  assumes "geocode env dict origin_address (Some origin_city) = (Some (l1 # ls1), t1)"
    and "geocode env dict destination_address (Some destination_city) = (Some (l2 # ls2), t2)"
  shows "sync_plan_route env dict origin_address destination_address (Some origin_city)
           (Some destination_city) route_type
       = (Inr (fst (plan_route env dict origin_address origin_city destination_address
                      destination_city route_type)),
          snd (plan_route env dict origin_address origin_city destination_address
                 destination_city route_type))"
  using assms
  by (simp add: sync_plan_route_def play_route_async_def plan_route_def sync_geocode_eq Let_def
      location_str_first split: option.splits)

lemma route_tool_names:
  "route_tool_name (ascii ''transit'') = ascii ''maps_direction_transit_integrated''"
  "route_tool_name (ascii ''driving'') = ascii ''maps_direction_driving''"
  "route_tool_name (ascii ''walking'') = ascii ''maps_direction_walking''"
  "route_tool_name (ascii ''teleport'') = ascii ''maps_direction_walking''"
  by (simp_all add: route_tool_name_def ascii_def)

lemma route_tool_name_other:
  "route_type \<noteq> ascii ''walking'' \<Longrightarrow> route_type \<noteq> ascii ''driving'' \<Longrightarrow>
   route_type \<noteq> ascii ''transit'' \<Longrightarrow> route_tool_name route_type = ascii ''maps_direction_walking''"
  by (simp add: route_tool_name_def)

lemma route_arguments_transit:
  "route_arguments (ascii ''transit'') a c1 b c2
     = [(ascii ''origin'', Some a), (ascii ''destination'', Some b),
        (ascii ''city1'', c1), (ascii ''city2'', c2)]"
  by (simp add: route_arguments_def)

lemma route_arguments_other:
  "route_type \<noteq> ascii ''transit'' \<Longrightarrow>
   route_arguments route_type a c1 b c2 = [(ascii ''origin'', Some a), (ascii ''destination'', Some b)]"
  by (simp add: route_arguments_def)

lemma driving_not_transit: "ascii ''driving'' \<noteq> ascii ''transit''"
  by (simp add: ascii_def)


lemma sync_plan_route_trace:
  assumes "geocode env dict origin_address (Some origin_city) = (Some (l1 # ls1), t1)"
    and "geocode env dict destination_address (Some destination_city) = (Some (l2 # ls2), t2)"
  shows "snd (sync_plan_route env dict origin_address destination_address (Some origin_city)
           (Some destination_city) route_type)
       = snd (plan_route env dict origin_address origin_city destination_address
                 destination_city route_type)"
  unfolding sync_plan_route_resolved [OF assms] by (rule snd_conv)

text \<open>
  Claim C7. Let both addresses resolve: geocoding gives a candidate for each, at whose
  first the route starts and ends. Then \<^verbatim>\<open>plan_route\<close>, in the asynchronous service and
  in the synchronous wrapper alike, calls after the two geocoding calls exactly one
  routing tool, provided the catalog holds it: for \<^verbatim>\<open>transit\<close> the tool
  \<^verbatim>\<open>maps_direction_transit_integrated\<close> with the two coordinates and the entries
  \<^verbatim>\<open>city1\<close> and \<^verbatim>\<open>city2\<close>; for \<^verbatim>\<open>driving\<close> the tool \<^verbatim>\<open>maps_direction_driving\<close> with the
  two coordinates only; and for a route type that is none of \<^verbatim>\<open>walking\<close>, \<^verbatim>\<open>driving\<close>,
  \<^verbatim>\<open>transit\<close> the tool \<^verbatim>\<open>maps_direction_walking\<close> with the two coordinates only.
\<close>

theorem plan_route_dispatch:
  assumes g1: "geocode env dict origin_address (Some origin_city) = (Some (l1 # ls1), t1)"
    and g2: "geocode env dict destination_address (Some destination_city) = (Some (l2 # ls2), t2)"
  shows "(dict (ascii ''maps_direction_transit_integrated'') = Some tool \<longrightarrow>
            snd (plan_route env dict origin_address origin_city destination_address
                   destination_city (ascii ''transit''))
              = t1 @ t2 @ [(ascii ''maps_direction_transit_integrated'',
                  [(ascii ''origin'', Some (coordinates env l1)),
                   (ascii ''destination'', Some (coordinates env l2)),
                   (ascii ''city1'', Some origin_city), (ascii ''city2'', Some destination_city)])]
          \<and> snd (sync_plan_route env dict origin_address destination_address (Some origin_city)
                   (Some destination_city) (ascii ''transit''))
              = t1 @ t2 @ [(ascii ''maps_direction_transit_integrated'',
                  [(ascii ''origin'', Some (coordinates env l1)),
                   (ascii ''destination'', Some (coordinates env l2)),
                   (ascii ''city1'', Some origin_city), (ascii ''city2'', Some destination_city)])])
       \<and> (dict (ascii ''maps_direction_driving'') = Some tool \<longrightarrow>
            snd (plan_route env dict origin_address origin_city destination_address
                   destination_city (ascii ''driving''))
              = t1 @ t2 @ [(ascii ''maps_direction_driving'',
                  [(ascii ''origin'', Some (coordinates env l1)),
                   (ascii ''destination'', Some (coordinates env l2))])]
          \<and> snd (sync_plan_route env dict origin_address destination_address (Some origin_city)
                   (Some destination_city) (ascii ''driving''))
              = t1 @ t2 @ [(ascii ''maps_direction_driving'',
                  [(ascii ''origin'', Some (coordinates env l1)),
                   (ascii ''destination'', Some (coordinates env l2))])])
       \<and> (route_type \<noteq> ascii ''walking'' \<and> route_type \<noteq> ascii ''driving''
            \<and> route_type \<noteq> ascii ''transit''
            \<and> dict (ascii ''maps_direction_walking'') = Some tool \<longrightarrow>
            snd (plan_route env dict origin_address origin_city destination_address
                   destination_city route_type)
              = t1 @ t2 @ [(ascii ''maps_direction_walking'',
                  [(ascii ''origin'', Some (coordinates env l1)),
                   (ascii ''destination'', Some (coordinates env l2))])]
          \<and> snd (sync_plan_route env dict origin_address destination_address (Some origin_city)
                   (Some destination_city) route_type)
              = t1 @ t2 @ [(ascii ''maps_direction_walking'',
                  [(ascii ''origin'', Some (coordinates env l1)),
                   (ascii ''destination'', Some (coordinates env l2))])])"
proof -
  note sync = sync_plan_route_trace [OF g1 g2]
  have a1: "snd (plan_route env dict origin_address origin_city destination_address
                   destination_city (ascii ''transit''))
              = t1 @ t2 @ [(ascii ''maps_direction_transit_integrated'',
                  [(ascii ''origin'', Some (coordinates env l1)),
                   (ascii ''destination'', Some (coordinates env l2)),
                   (ascii ''city1'', Some origin_city), (ascii ''city2'', Some destination_city)])]"
    if "dict (ascii ''maps_direction_transit_integrated'') = Some tool"
  proof -
    from that have "dict (route_tool_name (ascii ''transit'')) = Some tool"
      by (simp only: route_tool_names)
    from plan_route_calls [OF g1 g2 this] show ?thesis
      by (simp only: route_tool_names route_arguments_transit)
  qed
  have a2: "snd (plan_route env dict origin_address origin_city destination_address
                   destination_city (ascii ''driving''))
              = t1 @ t2 @ [(ascii ''maps_direction_driving'',
                  [(ascii ''origin'', Some (coordinates env l1)),
                   (ascii ''destination'', Some (coordinates env l2))])]"
    if "dict (ascii ''maps_direction_driving'') = Some tool"
  proof -
    from that have "dict (route_tool_name (ascii ''driving'')) = Some tool"
      by (simp only: route_tool_names)
    from plan_route_calls [OF g1 g2 this] show ?thesis
      by (simp only: route_tool_names route_arguments_other [OF driving_not_transit])
  qed
  have a3: "snd (plan_route env dict origin_address origin_city destination_address
                   destination_city route_type)
              = t1 @ t2 @ [(ascii ''maps_direction_walking'',
                  [(ascii ''origin'', Some (coordinates env l1)),
                   (ascii ''destination'', Some (coordinates env l2))])]"
    if "route_type \<noteq> ascii ''walking'' \<and> route_type \<noteq> ascii ''driving''
            \<and> route_type \<noteq> ascii ''transit''
            \<and> dict (ascii ''maps_direction_walking'') = Some tool"
  proof -
    from that have n1: "route_type \<noteq> ascii ''walking''" and n2: "route_type \<noteq> ascii ''driving''"
      and n3: "route_type \<noteq> ascii ''transit''"
      and d: "dict (ascii ''maps_direction_walking'') = Some tool"
      by (rule conjunct1, rule conjunct2 [THEN conjunct1],
          rule conjunct2 [THEN conjunct2, THEN conjunct1],
          rule conjunct2 [THEN conjunct2, THEN conjunct2])
    from d have "dict (route_tool_name route_type) = Some tool"
      by (simp only: route_tool_name_other [OF n1 n2 n3])
    from plan_route_calls [OF g1 g2 this] show ?thesis
      by (simp only: route_tool_name_other [OF n1 n2 n3] route_arguments_other [OF n3])
  qed
  show ?thesis
    unfolding sync by (intro conjI impI; erule a1 a2 a3)
qed

theorem plan_route_dispatch_witness:
  "geocode env0 (catalog_of tools0) (ascii ''Tiananmen'') (Some (ascii ''Beijing''))
     = (Some [\<lparr> longitude = 233 / 2, latitude = 159 / 4 \<rparr>],
        [(ascii ''maps_geo'', [(ascii ''address'', Some (ascii ''Tiananmen'')),
                               (ascii ''city'', Some (ascii ''Beijing''))])])
   \<and> geocode env0 (catalog_of tools0) (ascii ''Palace Museum'') (Some (ascii ''Beijing''))
     = (Some [\<lparr> longitude = 233 / 2, latitude = 159 / 4 \<rparr>],
        [(ascii ''maps_geo'', [(ascii ''address'', Some (ascii ''Palace Museum'')),
                               (ascii ''city'', Some (ascii ''Beijing''))])])
   \<and> catalog_of tools0 (ascii ''maps_direction_transit_integrated'') = Some (answer (ascii ''route''))
   \<and> snd (plan_route env0 (catalog_of tools0) (ascii ''Tiananmen'') (ascii ''Beijing'')
             (ascii ''Palace Museum'') (ascii ''Beijing'') (ascii ''transit''))
     = [(ascii ''maps_geo'', [(ascii ''address'', Some (ascii ''Tiananmen'')),
                              (ascii ''city'', Some (ascii ''Beijing''))]),
        (ascii ''maps_geo'', [(ascii ''address'', Some (ascii ''Palace Museum'')),
                              (ascii ''city'', Some (ascii ''Beijing''))]),
        (ascii ''maps_direction_transit_integrated'',
           [(ascii ''origin'', Some (ascii ''116.5,39.75'')),
            (ascii ''destination'', Some (ascii ''116.5,39.75'')),
            (ascii ''city1'', Some (ascii ''Beijing'')), (ascii ''city2'', Some (ascii ''Beijing''))])]
   \<and> catalog_of tools0 (ascii ''maps_direction_driving'') = Some (answer (ascii ''route''))
   \<and> snd (sync_plan_route env0 (catalog_of tools0) (ascii ''Tiananmen'') (ascii ''Palace Museum'')
             (Some (ascii ''Beijing'')) (Some (ascii ''Beijing'')) (ascii ''driving''))
     = [(ascii ''maps_geo'', [(ascii ''address'', Some (ascii ''Tiananmen'')),
                              (ascii ''city'', Some (ascii ''Beijing''))]),
        (ascii ''maps_geo'', [(ascii ''address'', Some (ascii ''Palace Museum'')),
                              (ascii ''city'', Some (ascii ''Beijing''))]),
        (ascii ''maps_direction_driving'',
           [(ascii ''origin'', Some (ascii ''116.5,39.75'')),
            (ascii ''destination'', Some (ascii ''116.5,39.75''))])]
   \<and> ascii ''teleport'' \<noteq> ascii ''walking'' \<and> ascii ''teleport'' \<noteq> ascii ''driving''
   \<and> ascii ''teleport'' \<noteq> ascii ''transit''
   \<and> catalog_of tools0 (ascii ''maps_direction_walking'') = Some (answer (ascii ''route''))
   \<and> snd (plan_route env0 (catalog_of tools0) (ascii ''Tiananmen'') (ascii ''Beijing'')
             (ascii ''Palace Museum'') (ascii ''Beijing'') (ascii ''teleport''))
     = [(ascii ''maps_geo'', [(ascii ''address'', Some (ascii ''Tiananmen'')),
                              (ascii ''city'', Some (ascii ''Beijing''))]),
        (ascii ''maps_geo'', [(ascii ''address'', Some (ascii ''Palace Museum'')),
                              (ascii ''city'', Some (ascii ''Beijing''))]),
        (ascii ''maps_direction_walking'',
           [(ascii ''origin'', Some (ascii ''116.5,39.75'')),
            (ascii ''destination'', Some (ascii ''116.5,39.75''))])]"
proof -
  have g: "geocode env0 (catalog_of tools0) a (Some (ascii ''Beijing''))
     = (Some [\<lparr> longitude = 233 / 2, latitude = 159 / 4 \<rparr>],
        [(ascii ''maps_geo'', [(ascii ''address'', Some a),
                               (ascii ''city'', Some (ascii ''Beijing''))])])" for a
    unfolding geocode_def catalog0
    by (simp add: city_argument_def answer_def ebind_def decode_first_def env0_fields
        loads0_def json_get_def json_iter_def make_location_def float_of_str0_def ascii_def)
  have c: "coordinates env0 \<lparr> longitude = 233 / 2, latitude = 159 / 4 \<rparr> = ascii ''116.5,39.75''"
    by (simp add: coordinates_def env0_fields str_of_float0_def ascii_def)
  have n: "ascii ''teleport'' \<noteq> ascii ''walking''" "ascii ''teleport'' \<noteq> ascii ''driving''"
    "ascii ''teleport'' \<noteq> ascii ''transit''"
    by (simp_all add: ascii_def)
  note inst = plan_route_dispatch [OF g [of "ascii ''Tiananmen''"] g [of "ascii ''Palace Museum''"],
      where tool = "answer (ascii ''route'')" and route_type = "ascii ''teleport''", unfolded c]
  have transit: "snd (plan_route env0 (catalog_of tools0) (ascii ''Tiananmen'') (ascii ''Beijing'')
             (ascii ''Palace Museum'') (ascii ''Beijing'') (ascii ''transit''))
     = [(ascii ''maps_geo'', [(ascii ''address'', Some (ascii ''Tiananmen'')),
                              (ascii ''city'', Some (ascii ''Beijing''))])]
       @ [(ascii ''maps_geo'', [(ascii ''address'', Some (ascii ''Palace Museum'')),
                              (ascii ''city'', Some (ascii ''Beijing''))])]
       @ [(ascii ''maps_direction_transit_integrated'',
           [(ascii ''origin'', Some (ascii ''116.5,39.75'')),
            (ascii ''destination'', Some (ascii ''116.5,39.75'')),
            (ascii ''city1'', Some (ascii ''Beijing'')), (ascii ''city2'', Some (ascii ''Beijing''))])]"
    by (rule inst [THEN conjunct1, THEN mp, OF catalog0(5), THEN conjunct1])
  have driving: "snd (sync_plan_route env0 (catalog_of tools0) (ascii ''Tiananmen'') (ascii ''Palace Museum'')
             (Some (ascii ''Beijing'')) (Some (ascii ''Beijing'')) (ascii ''driving''))
     = [(ascii ''maps_geo'', [(ascii ''address'', Some (ascii ''Tiananmen'')),
                              (ascii ''city'', Some (ascii ''Beijing''))])]
       @ [(ascii ''maps_geo'', [(ascii ''address'', Some (ascii ''Palace Museum'')),
                              (ascii ''city'', Some (ascii ''Beijing''))])]
       @ [(ascii ''maps_direction_driving'',
           [(ascii ''origin'', Some (ascii ''116.5,39.75'')),
            (ascii ''destination'', Some (ascii ''116.5,39.75''))])]"
    by (rule inst [THEN conjunct2, THEN conjunct1, THEN mp, OF catalog0(4), THEN conjunct2])
  have other: "snd (plan_route env0 (catalog_of tools0) (ascii ''Tiananmen'') (ascii ''Beijing'')
             (ascii ''Palace Museum'') (ascii ''Beijing'') (ascii ''teleport''))
     = [(ascii ''maps_geo'', [(ascii ''address'', Some (ascii ''Tiananmen'')),
                              (ascii ''city'', Some (ascii ''Beijing''))])]
       @ [(ascii ''maps_geo'', [(ascii ''address'', Some (ascii ''Palace Museum'')),
                              (ascii ''city'', Some (ascii ''Beijing''))])]
       @ [(ascii ''maps_direction_walking'',
           [(ascii ''origin'', Some (ascii ''116.5,39.75'')),
            (ascii ''destination'', Some (ascii ''116.5,39.75''))])]"
    by (rule inst [THEN conjunct2, THEN conjunct2, THEN mp, THEN conjunct1])
       (intro conjI n catalog0(3))
  show ?thesis
    unfolding transit driving other append.simps
    by (intro conjI g catalog0 n refl)
qed


text \<open>
  Claim C8. Four operations of the synchronous wrapper are the asynchronous ones, and
  so is \<^verbatim>\<open>plan_route\<close> when both addresses resolve (the lemmas \<open>sync_get_weather_eq\<close>,
  \<open>sync_search_poi_eq\<close>, \<open>sync_geocode_eq\<close>, \<open>sync_get_poi_detail_eq\<close> and
  \<open>sync_plan_route_resolved\<close>). When geocoding fails they differ: the wrapper geocodes
  before it enters its \<^verbatim>\<open>try\<close>. With a geocoding tool that cannot be reached, the
  asynchronous \<^verbatim>\<open>plan_route\<close> returns the empty list, and the synchronous one raises
  \<^verbatim>\<open>TypeError\<close>, from indexing the \<^verbatim>\<open>None\<close> that \<^verbatim>\<open>geocode\<close> returned.
\<close>

theorem sync_plan_route_raises:
  "plan_route env0 (catalog_of tools_geo_down) (ascii ''Tiananmen'') (ascii ''Beijing'')
     (ascii ''Palace Museum'') (ascii ''Beijing'') (ascii ''walking'')
     = (JArr [], [(ascii ''maps_geo'', [(ascii ''address'', Some (ascii ''Tiananmen'')),
                                        (ascii ''city'', Some (ascii ''Beijing''))])])
   \<and> sync_plan_route env0 (catalog_of tools_geo_down) (ascii ''Tiananmen'') (ascii ''Palace Museum'')
     (Some (ascii ''Beijing'')) (Some (ascii ''Beijing'')) (ascii ''walking'')
     = (Inl TypeError, [(ascii ''maps_geo'', [(ascii ''address'', Some (ascii ''Tiananmen'')),
                                              (ascii ''city'', Some (ascii ''Beijing''))])])"
proof -
  have d: "catalog_of tools_geo_down (ascii ''maps_geo'') = Some unreachable"
    by (simp add: catalog_of_def tools_geo_down_def)
  have g: "geocode env0 (catalog_of tools_geo_down) (ascii ''Tiananmen'') (Some (ascii ''Beijing''))
     = (None, [(ascii ''maps_geo'', [(ascii ''address'', Some (ascii ''Tiananmen'')),
                                     (ascii ''city'', Some (ascii ''Beijing''))])])"
    unfolding geocode_def d
    by (simp add: city_argument_def unreachable_def ebind_def ascii_def)
  have l: "location_str env0 None = Inl TypeError"
    by (simp add: location_str_def)
  show ?thesis
    by (simp add: plan_route_def sync_plan_route_def sync_geocode_eq g l)
qed


end
